theory Spec2Isabelle
  imports Complex_Main "HOL-Library.Word"
begin

section \<open>Map annotations of oggm-3dviz (tools/map\_annotations.py)\<close>

text \<open>
  The module layers four kinds of annotation (point label, arrow, outline, legend) on a
  3D scene. Every annotation class has a constructor and a render operation
  \<^verbatim>\<open>add_annotation(glacier_3dviz, plotter)\<close>.

  Conventions of the embedding:
  \<^item> A Python \<open>float\<close> argument (positions, directions, the relative magnitude, the text
    position) is a \<^typ>\<open>real\<close>, and arithmetic on Python scalars (the magnitude, computed
    after \<^verbatim>\<open>.item()\<close>) is exact: the rounding of that arithmetic is not part of the
    model.
  \<^item> Arithmetic on arrays follows the array library: a field has a dtype, the difference
    of two integer values wraps around in that dtype, and every float64 operation rounds
    its exact result to the nearest double (\<open>round64\<close>) or overflows to a non-finite
    value. The dtypes covered are the signed and unsigned integers and float64; array
    elements are finite numbers. A float32 field, whose promotion with a Python float
    differs between versions of the array library, is not covered.
  \<^item> Mutable Python objects that the caller and the annotation share (option
    dictionaries, the entries of a legend's label list, the terrain mesh) live in an
    explicit store, addressed by \<open>addr\<close>; a constructor that keeps a reference keeps
    the address.
  \<^item> The plotting surface is an external collaborator. It is represented by the trace of
    the calls it receives (\<open>calls\<close>); a failure raised inside the surface is outside the
    model. A keyword passed twice at a call site of this module (once by name, once
    through \<^verbatim>\<open>**\<close>) is rejected by the interpreter before the surface is entered,
    so that failure is a branch of the model.
  \<^item> Every raise is a value: an operation returns \<open>(Inl error, world)\<close> or
    \<open>(Inr result, world)\<close>, the world being the one reached when the operation stopped.
\<close>

subsection \<open>Values, arrays, objects\<close>

type_synonym addr = nat
type_synonym byte = "8 word"
type_synonym vec3 = "real \<times> real \<times> real"

datatype error = NotImplementedError | TypeError | KeyError | ValueError | IndexError
  | AttributeError

text \<open>
  Modelled from the spec: \<^verbatim>\<open>check_color\<close> (tools/utils.py) is not part of the sources
  at hand. The spec describes it as taking a named colour string or an explicit sequence
  and returning a canonical 4-byte RGBA value, failing on anything else. The functions
  below take it as a parameter of type \<open>pyval \<Rightarrow> error + rgba\<close>.
\<close>

datatype rgba = RGBA byte byte byte byte

datatype pyval = VNone | VBool bool | VInt int | VFloat real | VStr string
  | VList "pyval list" | VTuple "pyval list" | VRgba rgba

type_synonym kwargs = "string \<rightharpoonup> pyval"

subsection \<open>Float64 and integer arithmetic of the array library\<close>

text \<open>
  A float64 value is a real number that a double represents, or a non-finite value
  (an infinity or NaN; the three operations used here give a non-finite result as soon as
  an operand is non-finite). \<open>round64\<close> is rounding to nearest, ties to even, with 53
  significant bits, gradual underflow below \<open>2 powi - 1022\<close> and overflow from
  \<open>2 ^ 1024\<close> on.
\<close>

datatype f64 = Finite real | NonFinite

type_synonym fvec3 = "f64 \<times> f64 \<times> f64"

definition round_half_even :: "real \<Rightarrow> int" where
  "round_half_even y =
     (let f = \<lfloor>y\<rfloor>; r = y - of_int f
      in if r < 1 / 2 then f else if 1 / 2 < r then f + 1 else if even f then f else f + 1)"

definition exponent64 :: "real \<Rightarrow> int" where
  "exponent64 x = max \<lfloor>log 2 \<bar>x\<bar>\<rfloor> (- 1022)"

definition quantum64 :: "real \<Rightarrow> real" where
  "quantum64 x = 2 powi (exponent64 x - 52)"

definition round64 :: "real \<Rightarrow> f64" where
  "round64 x =
     (if x = 0 then Finite 0
      else let y = of_int (round_half_even (x / quantum64 x)) * quantum64 x
           in if \<bar>y\<bar> < 2 ^ 1024 then Finite y else NonFinite)"

definition fadd :: "f64 \<Rightarrow> f64 \<Rightarrow> f64" where
  "fadd a b = (case (a, b) of (Finite x, Finite y) \<Rightarrow> round64 (x + y) | _ \<Rightarrow> NonFinite)"

definition fsub :: "f64 \<Rightarrow> f64 \<Rightarrow> f64" where
  "fsub a b = (case (a, b) of (Finite x, Finite y) \<Rightarrow> round64 (x - y) | _ \<Rightarrow> NonFinite)"

definition fmul :: "f64 \<Rightarrow> f64 \<Rightarrow> f64" where
  "fmul a b = (case (a, b) of (Finite x, Finite y) \<Rightarrow> round64 (x * y) | _ \<Rightarrow> NonFinite)"

text \<open>
  The dtype of a field: a signed or unsigned integer of the given number of bits, or
  float64. Integer results wrap around.
\<close>

datatype dtype = Signed nat | Unsigned nat | Float64

definition wrap_signed :: "nat \<Rightarrow> int \<Rightarrow> int" where
  "wrap_signed bits v = (v + 2 ^ (bits - 1)) mod 2 ^ bits - 2 ^ (bits - 1)"

definition wrap_unsigned :: "nat \<Rightarrow> int \<Rightarrow> int" where
  "wrap_unsigned bits v = v mod 2 ^ bits"

text \<open>
  \<^verbatim>\<open>a - b\<close> on two zero-dimensional arrays of one dtype: the result has that dtype.
  An integer result is exact as a number, so it is written as a finite value.
\<close>

definition np_subtract :: "dtype \<Rightarrow> real \<Rightarrow> real \<Rightarrow> f64" where
  "np_subtract dt a b =
     (case dt of
        Signed bits \<Rightarrow> Finite (of_int (wrap_signed bits (\<lfloor>a\<rfloor> - \<lfloor>b\<rfloor>)))
      | Unsigned bits \<Rightarrow> Finite (of_int (wrap_unsigned bits (\<lfloor>a\<rfloor> - \<lfloor>b\<rfloor>)))
      | Float64 \<Rightarrow> fsub (Finite a) (Finite b))"

text \<open>
  An integer array that meets a float in an operation is converted to float64 first; a
  float64 array is taken as it is.
\<close>

definition as_float64 :: "dtype \<Rightarrow> f64 \<Rightarrow> f64" where
  "as_float64 dt v =
     (case dt of
        Float64 \<Rightarrow> v
      | _ \<Rightarrow> (case v of Finite x \<Rightarrow> round64 x | NonFinite \<Rightarrow> NonFinite))"

text \<open>
  An n-dimensional numeric array: its dtype, its shape and its elements in row-major
  order.
\<close>

record data_array =
  dtype :: dtype
  shape :: "nat list"
  flat :: "real list"

record uint8_array =
  u8_shape :: "nat list"
  u8_flat :: "byte list"

datatype texture = Texture uint8_array

text \<open>
  The dataset of the visualisation context: named fields and the projection string
  (\<^verbatim>\<open>dataset.pyproj_srs\<close>).
\<close>

record xr_dataset =
  data_vars :: "string \<rightharpoonup> data_array"
  pyproj_srs :: string

text \<open>
  \<^verbatim>\<open>viz.Glacier3DViz\<close> is not part of the sources at hand either; the annotations read
  five of its attributes: \<^verbatim>\<open>dataset\<close>, the field names \<^verbatim>\<open>x\<close>, \<^verbatim>\<open>y\<close> and
  \<^verbatim>\<open>topo_bedrock\<close> (here \<open>x_name\<close>, \<open>y_name\<close>, \<open>topo_bedrock\<close>), and the reference
  \<^verbatim>\<open>topo_mesh\<close>.
\<close>

record glacier_3dviz =
  dataset :: xr_dataset
  x_name :: string
  y_name :: string
  topo_bedrock :: string
  topo_mesh :: addr

text \<open>
  The terrain mesh is an object of the plotting library. The model keeps its grid
  dimensions and one piece of state that drawing can set on it.
\<close>

record mesh =
  grid_shape :: "nat list"
  active_t_coords :: "string option"

datatype obj = DictObj kwargs | ListObj "pyval list" | TupleObj "pyval list" | MeshObj mesh

datatype draw_call =
    Add_point_labels "fvec3 list" "string list" kwargs
  | Add_arrows fvec3 vec3 real kwargs
  | Add_mesh addr texture
  | Add_legend "addr list option" kwargs

record world =
  viz :: glacier_3dviz
  heap :: "addr \<rightharpoonup> obj"
  next_addr :: addr
  calls :: "draw_call list"

type_synonym 'a result = "(error + 'a) \<times> world"

definition wreturn :: "'a \<Rightarrow> world \<Rightarrow> 'a result" where
  "wreturn v w = (Inr v, w)"

definition wraise :: "error \<Rightarrow> world \<Rightarrow> 'a result" where
  "wraise e w = (Inl e, w)"

definition wbind :: "(world \<Rightarrow> 'a result) \<Rightarrow> ('a \<Rightarrow> world \<Rightarrow> 'b result) \<Rightarrow> world \<Rightarrow> 'b result" where
  "wbind m f w = (case m w of (Inl e, w') \<Rightarrow> (Inl e, w') | (Inr v, w') \<Rightarrow> f v w')"

definition sbind :: "error + 'a \<Rightarrow> ('a \<Rightarrow> error + 'b) \<Rightarrow> error + 'b" where
  "sbind m f = (case m of Inl e \<Rightarrow> Inl e | Inr v \<Rightarrow> f v)"

definition lift :: "error + 'a \<Rightarrow> world \<Rightarrow> 'a result" where
  "lift m w = (m, w)"

subsection \<open>Dictionaries and keyword arguments\<close>

text \<open>\<^verbatim>\<open>d.setdefault(k, v)\<close> on the value of a dictionary.\<close>

definition dict_setdefault :: "string \<Rightarrow> pyval \<Rightarrow> kwargs \<Rightarrow> kwargs" where
  "dict_setdefault k v d = (case d k of None \<Rightarrow> d(k \<mapsto> v) | Some _ \<Rightarrow> d)"

text \<open>
  \<^verbatim>\<open>d.setdefault(k, v)\<close> on a dictionary object of the store. An object without that
  method raises AttributeError.
\<close>

definition setdefault :: "addr \<Rightarrow> string \<Rightarrow> pyval \<Rightarrow> world \<Rightarrow> unit result" where
  "setdefault a k v w =
     (case heap w a of
        Some (DictObj d) \<Rightarrow> (Inr (), w\<lparr>heap := (heap w)(a \<mapsto> DictObj (dict_setdefault k v d))\<rparr>)
      | _ \<Rightarrow> (Inl AttributeError, w))"

text \<open>\<^verbatim>\<open>if kw is None: kw = {}\<close>: a fresh dictionary object when the argument is omitted.\<close>

definition new_dict :: "world \<Rightarrow> addr result" where
  "new_dict w =
     (Inr (next_addr w),
      w\<lparr>heap := (heap w)(next_addr w \<mapsto> DictObj Map.empty), next_addr := Suc (next_addr w)\<rparr>)"

definition dict_or_new :: "addr option \<Rightarrow> world \<Rightarrow> addr result" where
  "dict_or_new kw w = (case kw of None \<Rightarrow> new_dict w | Some a \<Rightarrow> (Inr a, w))"

text \<open>
  A keyword that a call passes by name and that the \<^verbatim>\<open>**\<close> mapping holds as well:
  TypeError (got multiple values for keyword argument).
\<close>

definition clashes :: "string list \<Rightarrow> kwargs \<Rightarrow> bool" where
  "clashes named d = list_ex (\<lambda>k. d k \<noteq> None) named"

text \<open>
  \<^verbatim>\<open>**obj\<close> at a call that also passes the keywords \<open>named\<close>: the object must be a
  mapping, and none of its keys may repeat a named keyword.
\<close>

definition splat :: "string list \<Rightarrow> addr \<Rightarrow> world \<Rightarrow> kwargs result" where
  "splat named a w =
     (case heap w a of
        Some (DictObj d) \<Rightarrow> (if clashes named d then (Inl TypeError, w) else (Inr d, w))
      | _ \<Rightarrow> (Inl TypeError, w))"

definition plot :: "draw_call \<Rightarrow> world \<Rightarrow> unit result" where
  "plot c w = (Inr (), w\<lparr>calls := calls w @ [c]\<rparr>)"

subsection \<open>Reading the dataset\<close>

definition getitem :: "xr_dataset \<Rightarrow> string \<Rightarrow> error + data_array" where
  "getitem ds k = (case data_vars ds k of None \<Rightarrow> Inl KeyError | Some a \<Rightarrow> Inr a)"

text \<open>\<^verbatim>\<open>.min()\<close> and \<^verbatim>\<open>.max()\<close>: a reduction over an array with no element raises ValueError.\<close>

definition arr_min :: "data_array \<Rightarrow> error + real" where
  "arr_min a = (if flat a = [] then Inl ValueError else Inr (Min (set (flat a))))"

definition arr_max :: "data_array \<Rightarrow> error + real" where
  "arr_max a = (if flat a = [] then Inl ValueError else Inr (Max (set (flat a))))"

definition field_min :: "glacier_3dviz \<Rightarrow> string \<Rightarrow> error + real" where
  "field_min g k = sbind (getitem (dataset g) k) arr_min"

definition field_max :: "glacier_3dviz \<Rightarrow> string \<Rightarrow> error + real" where
  "field_max g k = sbind (getitem (dataset g) k) arr_max"

text \<open>
  The minimum and the maximum of a field are zero-dimensional arrays of the field's dtype;
  \<open>field_dtype\<close> reads that dtype.
\<close>

definition field_dtype :: "glacier_3dviz \<Rightarrow> string \<Rightarrow> error + dtype" where
  "field_dtype g k = sbind (getitem (dataset g) k) (\<lambda>a. Inr (dtype a))"

subsection \<open>MapAnnotation and PointAnnotation\<close>

record point_annotation =
  latitude :: real
  longitude :: real
  height :: real
  latitude_proj :: "real option"
  longitude_proj :: "real option"
  point_text :: string
  point_kwargs :: kwargs

text \<open>
  \<^verbatim>\<open>__init__(self, latitude, longitude, height, text, **kwargs)\<close>: a keyword that
  repeats a named parameter, \<^verbatim>\<open>self\<close> included, is rejected when the call binds its
  arguments.
\<close>

definition PointAnnotation_init ::
  "real \<Rightarrow> real \<Rightarrow> real \<Rightarrow> string \<Rightarrow> kwargs \<Rightarrow> error + point_annotation" where
  "PointAnnotation_init lat lon h txt kw =
     (if clashes [''self'', ''latitude'', ''longitude'', ''height'', ''text''] kw
      then Inl TypeError
      else Inr \<lparr>latitude = lat, longitude = lon, height = h, latitude_proj = None,
                longitude_proj = None, point_text = txt, point_kwargs = kw\<rparr>)"

text \<open>
  \<^verbatim>\<open>Proj\<close> belongs to the projection library: \<open>proj srs lat lon\<close> stands for
  \<^verbatim>\<open>Proj(srs)(lat, lon)\<close>, which fails on an invalid projection string.
\<close>

definition reproject_coords ::
  "(string \<Rightarrow> real \<Rightarrow> real \<Rightarrow> error + real \<times> real) \<Rightarrow> point_annotation \<Rightarrow> glacier_3dviz
    \<Rightarrow> error + point_annotation" where
  "reproject_coords proj p g =
     sbind (proj (pyproj_srs (dataset g)) (latitude p) (longitude p))
       (\<lambda>(a, b). Inr (p\<lparr>latitude_proj := Some a, longitude_proj := Some b\<rparr>))"

definition Point_add_annotation ::
  "(string \<Rightarrow> real \<Rightarrow> real \<Rightarrow> error + real \<times> real) \<Rightarrow> point_annotation \<Rightarrow> world
    \<Rightarrow> point_annotation result" where
  "Point_add_annotation proj p w =
     (case reproject_coords proj p (viz w) of
        Inl e \<Rightarrow> (Inl e, w)
      | Inr p' \<Rightarrow>
          (case (latitude_proj p', longitude_proj p') of
             (Some a, Some b) \<Rightarrow>
               wbind (plot (Add_point_labels [(Finite a, Finite b, Finite (height p'))]
                              [point_text p'] (point_kwargs p')))
                 (\<lambda>_. wreturn p') w
           | _ \<Rightarrow> (Inl TypeError, w)))"

subsection \<open>ArrowAnnotation\<close>

record arrow_annotation =
  x_position :: real
  y_position :: real
  z_position :: real
  arrow_text :: string
  text_position :: real
  arrow_cent :: "fvec3 option"
  arrow_direction :: vec3
  arrow_magnitude_relative :: real
  arrow_magnitude :: "real option"
  arrow_kwargs :: addr
  text_kwargs :: addr

definition ArrowAnnotation_init ::
  "real \<Rightarrow> real \<Rightarrow> real \<Rightarrow> real \<Rightarrow> real \<Rightarrow> real \<Rightarrow> real \<Rightarrow> string \<Rightarrow> real
    \<Rightarrow> addr option \<Rightarrow> addr option \<Rightarrow> world \<Rightarrow> arrow_annotation result" where
  "ArrowAnnotation_init x_pos y_pos z_pos x_dir y_dir z_dir magnitude txt text_pos akw tkw =
     wbind (dict_or_new akw) (\<lambda>a.
     wbind (setdefault a ''show_scalar_bar'' (VBool False)) (\<lambda>_.
     wbind (setdefault a ''color'' (VList [VFloat 0.2, VFloat 0.2, VFloat 0.2])) (\<lambda>_.
     wbind (dict_or_new tkw) (\<lambda>t.
     wbind (setdefault t ''shape'' VNone) (\<lambda>_.
     wbind (setdefault t ''show_points'' (VBool False)) (\<lambda>_.
     wbind (setdefault t ''font_size'' (VInt 30)) (\<lambda>_.
     wreturn \<lparr>x_position = x_pos, y_position = y_pos, z_position = z_pos,
              arrow_text = txt, text_position = text_pos, arrow_cent = None,
              arrow_direction = (x_dir, y_dir, z_dir),
              arrow_magnitude_relative = magnitude, arrow_magnitude = None,
              arrow_kwargs = a, text_kwargs = t\<rparr>)))))))"

text \<open>
  \<^verbatim>\<open>minimum + position * (maximum - minimum)\<close>, where \<open>minimum\<close> and \<open>maximum\<close> are
  zero-dimensional arrays of dtype \<open>dt\<close> and \<open>position\<close> is a Python float: the
  difference is taken in \<open>dt\<close>, the product and the sum in float64.
\<close>

definition get_position :: "dtype \<Rightarrow> real \<Rightarrow> real \<Rightarrow> real \<Rightarrow> f64" where
  "get_position dt minimum maximum position =
     fadd (as_float64 dt (Finite minimum))
          (fmul (Finite position) (as_float64 dt (np_subtract dt maximum minimum)))"

definition set_arrow_position :: "arrow_annotation \<Rightarrow> glacier_3dviz \<Rightarrow> error + arrow_annotation" where
  "set_arrow_position a g =
     sbind (field_min g (x_name g)) (\<lambda>x_min.
     sbind (field_max g (x_name g)) (\<lambda>x_max.
     sbind (field_dtype g (x_name g)) (\<lambda>x_dtype.
     sbind (field_min g (y_name g)) (\<lambda>y_min.
     sbind (field_max g (y_name g)) (\<lambda>y_max.
     sbind (field_dtype g (y_name g)) (\<lambda>y_dtype.
     sbind (field_min g (topo_bedrock g)) (\<lambda>z_min.
     sbind (field_max g (topo_bedrock g)) (\<lambda>z_max.
     sbind (field_dtype g (topo_bedrock g)) (\<lambda>z_dtype.
     Inr (a\<lparr>arrow_cent := Some (get_position x_dtype x_min x_max (x_position a),
                                 get_position y_dtype y_min y_max (y_position a),
                                 get_position z_dtype z_min z_max (z_position a))\<rparr>))))))))))"

text \<open>
  The magnitude is computed on Python scalars (\<^verbatim>\<open>.max().item()\<close>, \<^verbatim>\<open>.min().item()\<close>):
  no dtype, no wrap-around.
\<close>

definition set_arrow_magnitude :: "arrow_annotation \<Rightarrow> glacier_3dviz \<Rightarrow> error + arrow_annotation" where
  "set_arrow_magnitude a g =
     sbind (field_max g (y_name g)) (\<lambda>y_max.
     sbind (field_min g (y_name g)) (\<lambda>y_min.
     Inr (a\<lparr>arrow_magnitude := Some ((y_max - y_min) * arrow_magnitude_relative a)\<rparr>)))"

text \<open>
  The label point \<^verbatim>\<open>arrow_cent + arrow_direction * arrow_magnitude * text_position\<close>:
  float64 arrays of three components, multiplied twice by a Python float and added
  component by component.
\<close>

definition fv_of :: "vec3 \<Rightarrow> fvec3" where
  "fv_of u = (case u of (a, b, c) \<Rightarrow> (Finite a, Finite b, Finite c))"

definition fv_scale :: "fvec3 \<Rightarrow> real \<Rightarrow> fvec3" where
  "fv_scale u s = (case u of (a, b, c) \<Rightarrow> (fmul a (Finite s), fmul b (Finite s), fmul c (Finite s)))"

definition fv_add :: "fvec3 \<Rightarrow> fvec3 \<Rightarrow> fvec3" where
  "fv_add u v = (case (u, v) of ((a, b, c), (d, e, f)) \<Rightarrow> (fadd a d, fadd b e, fadd c f))"

text \<open>
  The render of an arrow. On a failure the attributes already assigned to the annotation
  are not reported: the annotation is returned on success only.
\<close>

definition Arrow_add_annotation :: "arrow_annotation \<Rightarrow> world \<Rightarrow> arrow_annotation result" where
  "Arrow_add_annotation a =
     wbind (\<lambda>w. lift (set_arrow_position a (viz w)) w) (\<lambda>a1.
     wbind (\<lambda>w. lift (set_arrow_magnitude a1 (viz w)) w) (\<lambda>a2.
     (case (arrow_cent a2, arrow_magnitude a2) of
        (Some cent, Some mag) \<Rightarrow>
          wbind (splat [''cent'', ''direction'', ''mag''] (arrow_kwargs a2)) (\<lambda>akw.
          wbind (plot (Add_arrows cent (arrow_direction a2) mag akw)) (\<lambda>_.
          wbind (splat [] (text_kwargs a2)) (\<lambda>tkw.
          wbind (plot (Add_point_labels
                   [fv_add cent
                      (fv_scale (fv_scale (fv_of (arrow_direction a2)) mag) (text_position a2))]
                   [arrow_text a2] tkw)) (\<lambda>_.
          wreturn a2))))
      | _ \<Rightarrow> wraise TypeError)))"

subsection \<open>OutlineAnnotation\<close>

record outline_annotation =
  outline_data :: string
  outline_color :: rgba
  outline_texture :: "texture option"

definition OutlineAnnotation_init ::
  "(pyval \<Rightarrow> error + rgba) \<Rightarrow> string \<Rightarrow> pyval \<Rightarrow> error + outline_annotation" where
  "OutlineAnnotation_init check_color data color =
     sbind (check_color color)
       (\<lambda>c. Inr \<lparr>outline_data = data, outline_color = c, outline_texture = None\<rparr>)"

definition np_zeros :: "nat list \<Rightarrow> uint8_array" where
  "np_zeros shp = \<lparr>u8_shape = shp, u8_flat = replicate (prod_list shp) 0\<rparr>"

definition rgba_bytes :: "rgba \<Rightarrow> byte list" where
  "rgba_bytes c = (case c of RGBA r g b a \<Rightarrow> [r, g, b, a])"

text \<open>
  \<^verbatim>\<open>texture[mask, :] = color\<close>: the rows of four bytes whose mask element is true
  receive the colour, the others keep what they hold.
\<close>

fun assign_rows :: "bool list \<Rightarrow> byte list \<Rightarrow> byte list \<Rightarrow> byte list" where
  "assign_rows [] c t = t"
| "assign_rows (m # ms) c t = (if m then c else take 4 t) @ assign_rows ms c (drop 4 t)"

text \<open>
  The byte array built from the mask: zeros of the mask's shape with 4 appended, then the
  colour assigned where the mask equals 1.
\<close>

definition outline_array :: "rgba \<Rightarrow> data_array \<Rightarrow> uint8_array" where
  "outline_array color outline_mask =
     (let zeros = np_zeros (shape outline_mask @ [4])
      in zeros\<lparr>u8_flat := assign_rows (map (\<lambda>v. v = 1) (flat outline_mask))
                                (rgba_bytes color) (u8_flat zeros)\<rparr>)"

text \<open>
  \<^verbatim>\<open>pv.numpy_to_texture\<close> belongs to the plotting library and can refuse an array (it
  raises for an array that is not an image); it is the parameter \<open>numpy_to_texture\<close>.
  When it raises, \<^verbatim>\<open>self.outline_texture\<close> is not assigned.
\<close>

definition set_outline_texture ::
  "(uint8_array \<Rightarrow> error + texture) \<Rightarrow> outline_annotation \<Rightarrow> glacier_3dviz
    \<Rightarrow> error + outline_annotation" where
  "set_outline_texture numpy_to_texture a g =
     sbind (getitem (dataset g) (outline_data a)) (\<lambda>outline_mask.
     sbind (numpy_to_texture (outline_array (outline_color a) outline_mask)) (\<lambda>tex.
     Inr (a\<lparr>outline_texture := Some tex\<rparr>)))"

text \<open>
  \<^verbatim>\<open>copy.deepcopy(obj)\<close>: a new object with the same content (the objects of the
  store hold values only, no references).
\<close>

definition deepcopy :: "addr \<Rightarrow> world \<Rightarrow> addr result" where
  "deepcopy a w =
     (case heap w a of
        None \<Rightarrow> (Inl AttributeError, w)
      | Some ob \<Rightarrow>
          (Inr (next_addr w),
           w\<lparr>heap := (heap w)(next_addr w \<mapsto> ob), next_addr := Suc (next_addr w)\<rparr>))"

text \<open>
  \<^verbatim>\<open>plotter.add_mesh(mesh, texture=...)\<close>: the surface records the call and may change
  the state of the mesh object it was given; \<open>touch\<close> is that change.
\<close>

definition add_mesh :: "(obj \<Rightarrow> texture \<Rightarrow> obj) \<Rightarrow> addr \<Rightarrow> texture \<Rightarrow> world \<Rightarrow> unit result" where
  "add_mesh touch m tex w =
     (Inr (), w\<lparr>heap := (case heap w m of None \<Rightarrow> heap w
                           | Some ob \<Rightarrow> (heap w)(m \<mapsto> touch ob tex)),
               calls := calls w @ [Add_mesh m tex]\<rparr>)"

definition Outline_add_annotation ::
  "(uint8_array \<Rightarrow> error + texture) \<Rightarrow> (obj \<Rightarrow> texture \<Rightarrow> obj) \<Rightarrow> outline_annotation
    \<Rightarrow> world \<Rightarrow> outline_annotation result" where
  "Outline_add_annotation numpy_to_texture touch a =
     wbind (\<lambda>w. lift (set_outline_texture numpy_to_texture a (viz w)) w) (\<lambda>a1.
     (case outline_texture a1 of
        None \<Rightarrow> wraise TypeError
      | Some tex \<Rightarrow>
          wbind (\<lambda>w. deepcopy (topo_mesh (viz w)) w) (\<lambda>m.
          wbind (add_mesh touch m tex) (\<lambda>_.
          wreturn a1))))"

subsection \<open>LegendAnnotation\<close>

record legend_annotation =
  labels :: "addr list option"
  legend_kwargs :: kwargs

text \<open>
  \<^verbatim>\<open>for label in self.labels: label[1] = check_color(label[1])\<close>. Reading index 1 of
  a sequence with fewer than two elements raises IndexError; a tuple can be read but not
  assigned to (TypeError); a dictionary with string keys has no key 1 (KeyError); a
  mesh cannot be indexed (TypeError).
\<close>

fun normalize_labels :: "(pyval \<Rightarrow> error + rgba) \<Rightarrow> addr list \<Rightarrow> world \<Rightarrow> unit result" where
  "normalize_labels check_color [] w = (Inr (), w)"
| "normalize_labels check_color (l # ls) w =
     (case heap w l of
        Some (ListObj xs) \<Rightarrow>
          (if length xs < 2 then (Inl IndexError, w)
           else (case check_color (xs ! 1) of
                   Inl e \<Rightarrow> (Inl e, w)
                 | Inr c \<Rightarrow>
                     normalize_labels check_color ls
                       (w\<lparr>heap := (heap w)(l \<mapsto> ListObj (xs[1 := VRgba c]))\<rparr>)))
      | Some (TupleObj xs) \<Rightarrow>
          (if length xs < 2 then (Inl IndexError, w)
           else (case check_color (xs ! 1) of
                   Inl e \<Rightarrow> (Inl e, w)
                 | Inr c \<Rightarrow> (Inl TypeError, w)))
      | Some (DictObj d) \<Rightarrow> (Inl KeyError, w)
      | _ \<Rightarrow> (Inl TypeError, w))"

text \<open>
  \<^verbatim>\<open>__init__(self, labels=None, **kwargs)\<close>. The keyword dictionary is built by the
  call, so it is the annotation's own; a keyword \<^verbatim>\<open>self\<close>, or a keyword
  \<^verbatim>\<open>labels\<close> next to the argument \<open>labels\<close>, is rejected when the call binds its
  arguments. Iterating over None raises TypeError.
\<close>

definition LegendAnnotation_init ::
  "(pyval \<Rightarrow> error + rgba) \<Rightarrow> addr list option \<Rightarrow> kwargs \<Rightarrow> world \<Rightarrow> legend_annotation result" where
  "LegendAnnotation_init check_color lbls kw w =
     (if clashes [''self'', ''labels''] kw then (Inl TypeError, w)
      else (case lbls of
              None \<Rightarrow> (Inl TypeError, w)
            | Some ls \<Rightarrow>
                wbind (normalize_labels check_color ls) (\<lambda>_.
                wreturn \<lparr>labels = lbls,
                         legend_kwargs =
                           dict_setdefault ''face'' (VStr ''rectangle'')
                             (dict_setdefault ''loc'' (VStr ''lower center'')
                               (dict_setdefault ''size'' (VTuple [VFloat 0.2, VFloat 0.1])
                                 (dict_setdefault ''bcolor''
                                    (VTuple [VFloat 0.5, VFloat 0.5, VFloat 0.5]) kw)))\<rparr>) w))"

definition Legend_add_annotation :: "legend_annotation \<Rightarrow> world \<Rightarrow> legend_annotation result" where
  "Legend_add_annotation a w =
     (if clashes [''labels''] (legend_kwargs a) then (Inl TypeError, w)
      else wbind (plot (Add_legend (labels a) (legend_kwargs a))) (\<lambda>_. wreturn a) w)"

subsection \<open>The render operation of every variant\<close>

datatype annotation = MapAnnotation | PointAnnotation point_annotation
  | ArrowAnnotation arrow_annotation | OutlineAnnotation outline_annotation
  | LegendAnnotation legend_annotation

fun add_annotation ::
  "(string \<Rightarrow> real \<Rightarrow> real \<Rightarrow> error + real \<times> real) \<Rightarrow> (uint8_array \<Rightarrow> error + texture)
    \<Rightarrow> (obj \<Rightarrow> texture \<Rightarrow> obj) \<Rightarrow> annotation \<Rightarrow> world \<Rightarrow> annotation result" where
  "add_annotation proj numpy_to_texture touch MapAnnotation w = (Inl NotImplementedError, w)"
| "add_annotation proj numpy_to_texture touch (PointAnnotation p) w =
     wbind (Point_add_annotation proj p) (\<lambda>p'. wreturn (PointAnnotation p')) w"
| "add_annotation proj numpy_to_texture touch (ArrowAnnotation a) w =
     wbind (Arrow_add_annotation a) (\<lambda>a'. wreturn (ArrowAnnotation a')) w"
| "add_annotation proj numpy_to_texture touch (OutlineAnnotation a) w =
     wbind (Outline_add_annotation numpy_to_texture touch a)
       (\<lambda>a'. wreturn (OutlineAnnotation a')) w"
| "add_annotation proj numpy_to_texture touch (LegendAnnotation a) w =
     wbind (Legend_add_annotation a) (\<lambda>a'. wreturn (LegendAnnotation a')) w"

subsection \<open>Exact extents\<close>


subsection \<open>The defaults of the option mappings, as the documentation words them\<close>

text \<open>
  "Caller-supplied values win, defaults fill gaps": the mapping \<open>defaults ++ d\<close>, in
  which an entry of \<open>d\<close> overrides the default of the same key.
\<close>

definition arrow_defaults :: kwargs where
  "arrow_defaults = [''show_scalar_bar'' \<mapsto> VBool False,
                     ''color'' \<mapsto> VList [VFloat 0.2, VFloat 0.2, VFloat 0.2]]"

definition text_defaults :: kwargs where
  "text_defaults = [''shape'' \<mapsto> VNone, ''show_points'' \<mapsto> VBool False,
                    ''font_size'' \<mapsto> VInt 30]"

definition legend_defaults :: kwargs where
  "legend_defaults = [''bcolor'' \<mapsto> VTuple [VFloat 0.5, VFloat 0.5, VFloat 0.5],
                      ''size'' \<mapsto> VTuple [VFloat 0.2, VFloat 0.1],
                      ''loc'' \<mapsto> VStr ''lower center'',
                      ''face'' \<mapsto> VStr ''rectangle'']"

subsection \<open>A concrete scene\<close>

text \<open>
  A dataset with x in [0, 10], y in [0, 20], bedrock in [100, 200] and a 2 x 2 glacier
  mask; a store holding the terrain mesh (a 3 x 3 grid), option dictionaries and two
  legend entries.
\<close>

definition ex_dataset :: xr_dataset where
  "ex_dataset =
     \<lparr>data_vars =
        [''x'' \<mapsto> \<lparr>dtype = Float64, shape = [2], flat = [0, 10]\<rparr>,
         ''y'' \<mapsto> \<lparr>dtype = Float64, shape = [2], flat = [0, 20]\<rparr>,
         ''bedrock'' \<mapsto> \<lparr>dtype = Float64, shape = [2, 2], flat = [100, 150, 120, 200]\<rparr>,
         ''glacier_ext'' \<mapsto> \<lparr>dtype = Signed 8, shape = [2, 2], flat = [0, 1, 1, 0]\<rparr>],
      pyproj_srs = ''epsg:32632''\<rparr>"

definition ex_viz :: glacier_3dviz where
  "ex_viz = \<lparr>dataset = ex_dataset, x_name = ''x'', y_name = ''y'', topo_bedrock = ''bedrock'',
             topo_mesh = 0\<rparr>"

definition ex_mesh :: mesh where
  "ex_mesh = \<lparr>grid_shape = [3, 3], active_t_coords = None\<rparr>"

definition ex_heap :: "addr \<rightharpoonup> obj" where
  "ex_heap = [0 \<mapsto> MeshObj ex_mesh,
              1 \<mapsto> DictObj Map.empty,
              2 \<mapsto> DictObj [''font_size'' \<mapsto> VInt 12],
              3 \<mapsto> ListObj [VStr ''ice'', VStr ''blue''],
              4 \<mapsto> ListObj [VStr ''rock'', VList [VInt 100, VInt 100, VInt 100, VInt 255]],
              5 \<mapsto> DictObj [''mag'' \<mapsto> VFloat 1]]"

definition ex_world :: world where
  "ex_world = \<lparr>viz = ex_viz, heap = ex_heap, next_addr = 6, calls = []\<rparr>"

definition ex_arrow :: arrow_annotation where
  "ex_arrow = \<lparr>x_position = 0.5, y_position = 0.5, z_position = 0.5, arrow_text = ''N'',
               text_position = 1.3, arrow_cent = None, arrow_direction = (0, 1, 0),
               arrow_magnitude_relative = 0.1, arrow_magnitude = None,
               arrow_kwargs = 1, text_kwargs = 2\<rparr>"



text \<open>An arrow that points along x and y, with its label at one and a half arrow lengths.\<close>

definition ex_arrow_xy :: arrow_annotation where
  "ex_arrow_xy = \<lparr>x_position = 0.5, y_position = 0.5, z_position = 0.5, arrow_text = ''N'',
                  text_position = 1.5, arrow_cent = None, arrow_direction = (3, 1, 0),
                  arrow_magnitude_relative = 0.1, arrow_magnitude = None,
                  arrow_kwargs = 1, text_kwargs = 2\<rparr>"

text \<open>A colour normaliser for the concrete scene: two names, sequences of four integers.\<close>

fun ex_check_color :: "pyval \<Rightarrow> error + rgba" where
  "ex_check_color (VStr s) =
     (if s = ''blue'' then Inr (RGBA 0 0 255 255)
      else if s = ''black'' then Inr (RGBA 0 0 0 255)
      else Inl ValueError)"
| "ex_check_color (VList [VInt r, VInt g, VInt b, VInt a]) =
     Inr (RGBA (word_of_int r) (word_of_int g) (word_of_int b) (word_of_int a))"
| "ex_check_color (VRgba c) = Inr c"
| "ex_check_color _ = Inl ValueError"

definition ex_proj :: "string \<Rightarrow> real \<Rightarrow> real \<Rightarrow> error + real \<times> real" where
  "ex_proj srs lat lon = (if srs = [] then Inl ValueError else Inr (1000 * lat, 1000 * lon))"

fun ex_touch :: "obj \<Rightarrow> texture \<Rightarrow> obj" where
  "ex_touch (MeshObj m) tex = MeshObj (m\<lparr>active_t_coords := Some ''Texture Coordinates''\<rparr>)"
| "ex_touch ob tex = ob"

definition ex_outline :: outline_annotation where
  "ex_outline = \<lparr>outline_data = ''glacier_ext'', outline_color = RGBA 0 0 0 255,
                 outline_texture = None\<rparr>"

definition ex_texture :: uint8_array where
  "ex_texture = \<lparr>u8_shape = [2, 2, 4],
                 u8_flat = [0, 0, 0, 0,  0, 0, 0, 255,  0, 0, 0, 255,  0, 0, 0, 0]\<rparr>"

text \<open>An outline in a colour of four different bytes, and the array it gives.\<close>

definition ex_outline_rgb :: outline_annotation where
  "ex_outline_rgb = \<lparr>outline_data = ''glacier_ext'', outline_color = RGBA 10 20 30 255,
                     outline_texture = None\<rparr>"

definition ex_texture_rgb :: uint8_array where
  "ex_texture_rgb = \<lparr>u8_shape = [2, 2, 4],
                     u8_flat = [0, 0, 0, 0,  10, 20, 30, 255,  10, 20, 30, 255,  0, 0, 0, 0]\<rparr>"

text \<open>
  A texture builder for the concrete scene: it takes an array of three dimensions that is
  not empty, and refuses any other.
\<close>

definition ex_numpy_to_texture :: "uint8_array \<Rightarrow> error + texture" where
  "ex_numpy_to_texture arr =
     (if length (u8_shape arr) = 3 \<and> u8_flat arr \<noteq> [] then Inr (Texture arr)
      else Inl ValueError)"




section \<open>Properties\<close>

subsection \<open>Auxiliary facts\<close>

lemma sbind_simps [simp]: "sbind (Inl e) f = Inl e" "sbind (Inr v) f = f v"
  by (simp_all add: sbind_def)

lemma field_min_present:
  "data_vars (dataset g) k = Some a \<Longrightarrow> flat a \<noteq> [] \<Longrightarrow> field_min g k = Inr (Min (set (flat a)))"
  by (simp add: field_min_def getitem_def arr_min_def)

lemma field_max_present:
  "data_vars (dataset g) k = Some a \<Longrightarrow> flat a \<noteq> [] \<Longrightarrow> field_max g k = Inr (Max (set (flat a)))"
  by (simp add: field_max_def getitem_def arr_max_def)

lemma field_dtype_present:
  "data_vars (dataset g) k = Some a \<Longrightarrow> field_dtype g k = Inr (dtype a)"
  by (simp add: field_dtype_def getitem_def)

subsection \<open>Rounding to float64\<close>

lemma round_half_even_of_int [simp]: "round_half_even (of_int m) = m"
  by (simp add: round_half_even_def)

lemma round_half_even_floor: "\<lfloor>z\<rfloor> \<le> round_half_even z" "round_half_even z \<le> \<lfloor>z\<rfloor> + 1"
  by (simp_all add: round_half_even_def Let_def)

lemma round_half_even_ge: "of_int m \<le> z \<Longrightarrow> m \<le> round_half_even z"
proof -
  assume "of_int m \<le> z"
  then have "m \<le> \<lfloor>z\<rfloor>" by (simp add: le_floor_iff)
  then show ?thesis using round_half_even_floor(1) [of z] by linarith
qed

lemma round_half_even_le: "z \<le> of_int m \<Longrightarrow> round_half_even z \<le> m"
proof -
  assume a: "z \<le> of_int m"
  have f: "\<lfloor>z\<rfloor> \<le> m" using a by (simp add: floor_le_iff)
  show ?thesis
  proof (cases "z = of_int \<lfloor>z\<rfloor>")
    case True
    then have "round_half_even z = \<lfloor>z\<rfloor>"
      by (metis round_half_even_of_int)
    then show ?thesis using f by simp
  next
    case False
    then have "of_int \<lfloor>z\<rfloor> < z"
      using of_int_floor_le [of z] by linarith
    then have "of_int \<lfloor>z\<rfloor> < (of_int m :: real)" using a by linarith
    then have "\<lfloor>z\<rfloor> + 1 \<le> m" by simp
    moreover have "round_half_even z \<le> \<lfloor>z\<rfloor> + 1"
      by (rule round_half_even_floor(2))
    ultimately show ?thesis by linarith
  qed
qed

lemma quantum64_pos [simp]: "0 < quantum64 x"
  by (simp add: quantum64_def)

lemma two_powr_int: "(2::real) powr of_int k = 2 powi k"
  by (rule powr_real_of_int') simp_all

lemma log2_floor_bounds:
  assumes "x \<noteq> 0"
  shows "2 powi \<lfloor>log 2 \<bar>x\<bar>\<rfloor> \<le> \<bar>x\<bar>" and "\<bar>x\<bar> < 2 powi (\<lfloor>log 2 \<bar>x\<bar>\<rfloor> + 1)"
proof -
  have pos: "0 < \<bar>x\<bar>" using assms by simp
  have "of_int \<lfloor>log 2 \<bar>x\<bar>\<rfloor> \<le> log 2 \<bar>x\<bar>" by simp
  then have "2 powr of_int \<lfloor>log 2 \<bar>x\<bar>\<rfloor> \<le> \<bar>x\<bar>"
    using pos by (simp add: powr_le_iff)
  then show "2 powi \<lfloor>log 2 \<bar>x\<bar>\<rfloor> \<le> \<bar>x\<bar>" by (simp add: two_powr_int)
  have "log 2 \<bar>x\<bar> < of_int (\<lfloor>log 2 \<bar>x\<bar>\<rfloor> + 1)" by simp
  then have "\<bar>x\<bar> < 2 powr of_int (\<lfloor>log 2 \<bar>x\<bar>\<rfloor> + 1)"
    using pos by (simp add: less_powr_iff)
  then show "\<bar>x\<bar> < 2 powi (\<lfloor>log 2 \<bar>x\<bar>\<rfloor> + 1)" by (simp only: two_powr_int)
qed

lemma log2_floor_eq:
  assumes "2 powi k \<le> \<bar>x\<bar>" and "\<bar>x\<bar> < 2 powi (k + 1)"
  shows "\<lfloor>log 2 \<bar>x\<bar>\<rfloor> = k"
proof -
  have "(0::real) < 2 powi k" by simp
  then have pos: "0 < \<bar>x\<bar>" using assms(1) by linarith
  have "2 powr of_int k \<le> \<bar>x\<bar>" using assms(1) by (simp add: two_powr_int)
  then have 1: "of_int k \<le> log 2 \<bar>x\<bar>" using pos by (simp add: le_log_iff)
  have "\<bar>x\<bar> < 2 powr of_int (k + 1)" using assms(2) by (simp only: two_powr_int)
  then have "log 2 \<bar>x\<bar> < of_int (k + 1)" using pos by (simp add: log_less_iff)
  with 1 show ?thesis by (simp add: floor_eq_iff)
qed

lemma exponent64_upper:
  assumes "x \<noteq> 0" shows "\<bar>x\<bar> < 2 powi (exponent64 x + 1)"
proof -
  have "\<bar>x\<bar> < 2 powi (\<lfloor>log 2 \<bar>x\<bar>\<rfloor> + 1)" by (rule log2_floor_bounds(2) [OF assms])
  also have "\<dots> \<le> 2 powi (exponent64 x + 1)"
    by (rule power_int_increasing) (simp_all add: exponent64_def)
  finally show ?thesis .
qed

lemma quantum64_scale: "quantum64 x * 2 ^ 53 = 2 powi (exponent64 x + 1)"
  using power_int_add [of "2::real" "exponent64 x - 52" 53]
  by (simp add: quantum64_def add.commute)

lemma quantum64_scale52: "quantum64 x * 2 ^ 52 = 2 powi (exponent64 x)"
  using power_int_add [of "2::real" "exponent64 x - 52" 52]
  by (simp add: quantum64_def)

lemma scaled_upper:
  assumes "x \<noteq> 0" shows "\<bar>x / quantum64 x\<bar> < 2 ^ 53"
proof -
  have "\<bar>x\<bar> < quantum64 x * 2 ^ 53"
    using exponent64_upper [OF assms] by (simp only: quantum64_scale)
  then have "\<bar>x\<bar> / quantum64 x < 2 ^ 53"
    by (simp add: pos_divide_less_eq mult.commute)
  then show ?thesis using quantum64_pos [of x] by (simp add: abs_of_pos)
qed

lemma round64_grid:
  assumes "y / quantum64 y = of_int k" and "\<bar>y\<bar> < 2 ^ 1024"
  shows "round64 y = Finite y"
proof (cases "y = 0")
  case True
  then show ?thesis by (simp add: round64_def)
next
  case False
  have "of_int k * quantum64 y = y"
    using assms(1) quantum64_pos [of y] by (simp add: field_simps)
  then show ?thesis using False assms by (simp add: round64_def)
qed

lemma quantum64_neq0 [simp]: "quantum64 x \<noteq> 0"
  using quantum64_pos [of x] by linarith

lemma power_int_2_less_cancel: "(2::real) powi a < 2 powi b \<Longrightarrow> a < b"
proof (rule ccontr)
  assume a: "(2::real) powi a < 2 powi b" and "\<not> a < b"
  then have "b \<le> a" by simp
  then have "(2::real) powi b \<le> 2 powi a" by (intro power_int_increasing) simp_all
  with a show False by simp
qed

lemma exponent64_of_int:
  assumes "n \<noteq> 0" and "\<bar>n\<bar> < 2 ^ 53"
  shows "0 \<le> exponent64 (of_int n)" and "exponent64 (of_int n) \<le> 52"
proof -
  let ?x = "of_int n :: real"
  let ?L = "\<lfloor>log 2 \<bar>?x\<bar>\<rfloor>"
  have x0: "?x \<noteq> 0" using assms(1) by simp
  have "1 \<le> \<bar>n\<bar>" using assms(1) by simp
  then have "(1::real) \<le> \<bar>?x\<bar>" by (metis of_int_1_le_iff of_int_abs)
  then have "(2::real) powi 0 < 2 powi (?L + 1)"
    using log2_floor_bounds(2) [OF x0] by simp
  then have L0: "0 \<le> ?L" using power_int_2_less_cancel [of 0 "?L + 1"] by simp
  have "\<bar>?x\<bar> < 2 ^ 53" using assms(2) by (metis of_int_abs of_int_less_numeral_power_cancel_iff)
  then have "(2::real) powi ?L < 2 powi 53"
    using log2_floor_bounds(1) [OF x0] by simp
  then have L1: "?L \<le> 52" using power_int_2_less_cancel [of ?L 53] by simp
  show "0 \<le> exponent64 ?x" "exponent64 ?x \<le> 52"
    using L0 L1 by (simp_all add: exponent64_def)
qed

lemma round64_of_int:
  assumes "\<bar>n\<bar> < 2 ^ 53"
  shows "round64 (of_int n) = Finite (of_int n)"
proof (cases "n = 0")
  case True
  then show ?thesis by (simp add: round64_def)
next
  case False
  let ?x = "of_int n :: real"
  let ?E = "exponent64 ?x"
  have E: "0 \<le> ?E" "?E \<le> 52" using exponent64_of_int [OF False assms] by simp_all
  have "quantum64 ?x * 2 powi (52 - ?E) = 1"
    using power_int_add [of "2::real" "?E - 52" "52 - ?E"] by (simp add: quantum64_def)
  moreover have "(2::real) powi (52 - ?E) = of_int (2 ^ nat (52 - ?E))"
    using E by (simp add: power_int_def)
  ultimately have q: "quantum64 ?x * of_int (2 ^ nat (52 - ?E)) = 1" by simp
  have "?x / quantum64 ?x = of_int (n * 2 ^ nat (52 - ?E))"
  proof -
    have "?x / quantum64 ?x = ?x * (quantum64 ?x * of_int (2 ^ nat (52 - ?E))) / quantum64 ?x"
      using q by simp
    also have "\<dots> = ?x * of_int (2 ^ nat (52 - ?E))"
      using quantum64_pos [of ?x] by simp
    finally show ?thesis by simp
  qed
  moreover have "\<bar>?x\<bar> < 2 ^ 1024"
  proof -
    have "\<bar>?x\<bar> < 2 ^ 53" using assms by (metis of_int_abs of_int_less_numeral_power_cancel_iff)
    also have "(2::real) ^ 53 < 2 ^ 1024" by (rule power_strict_increasing) simp_all
    finally show ?thesis .
  qed
  ultimately show ?thesis by (rule round64_grid)
qed

lemma abs_less_boundsD:
  fixes z :: real
  assumes "\<bar>z\<bar> < c"
  shows "z \<le> c" and "- c \<le> z"
  using assms by linarith+

lemma abs_ge_casesD:
  fixes z :: real
  assumes "c \<le> \<bar>z\<bar>"
  shows "c \<le> z \<or> z \<le> - c"
  using assms by linarith

lemma round_half_even_abs_le:
  assumes "\<bar>z\<bar> < of_int m"
  shows "\<bar>round_half_even z\<bar> \<le> m"
proof -
  have "z \<le> of_int m" and "of_int (- m) \<le> z"
    using abs_less_boundsD [OF assms] by simp_all
  then have "round_half_even z \<le> m" and "- m \<le> round_half_even z"
    using round_half_even_le [of z m] round_half_even_ge [of "- m" z] by blast+
  then show ?thesis by simp
qed

lemma round_half_even_abs_ge:
  assumes "of_int m \<le> \<bar>z\<bar>"
  shows "m \<le> \<bar>round_half_even z\<bar>"
proof -
  from abs_ge_casesD [OF assms] show ?thesis
  proof
    assume "of_int m \<le> z"
    then have "m \<le> round_half_even z" by (rule round_half_even_ge)
    then show ?thesis by simp
  next
    assume "z \<le> - of_int m"
    then have "z \<le> of_int (- m)" by simp
    then have "round_half_even z \<le> - m" by (rule round_half_even_le)
    then show ?thesis by simp
  qed
qed

lemma round64_FiniteD:
  assumes "round64 x = Finite y" and "x \<noteq> 0"
  shows "y = of_int (round_half_even (x / quantum64 x)) * quantum64 x" and "\<bar>y\<bar> < 2 ^ 1024"
  using assms by (simp_all add: round64_def Let_def split: if_splits)

lemma round64_idem:
  assumes "round64 x = Finite y"
  shows "round64 y = Finite y"
proof (cases "x = 0")
  case True
  then show ?thesis using assms by (simp add: round64_def)
next
  case False
  define q where "q = quantum64 x"
  define k where "k = round_half_even (x / q)"
  define E where "E = exponent64 x"
  have q0: "0 < q" by (simp add: q_def)
  have y: "y = of_int k * q" and ylt: "\<bar>y\<bar> < 2 ^ 1024"
    using round64_FiniteD [OF assms False] by (simp_all add: q_def k_def)
  have absy: "\<bar>y\<bar> = of_int \<bar>k\<bar> * q" using q0 by (simp add: y abs_mult)
  have q53: "q * 2 ^ 53 = 2 powi (E + 1)" and q52: "q * 2 ^ 52 = 2 powi E"
    by (simp_all only: q_def E_def quantum64_scale quantum64_scale52)
  have sc: "\<bar>x / q\<bar> < 2 ^ 53" using scaled_upper [OF False] by (simp add: q_def)
  have kub: "\<bar>k\<bar> \<le> 2 ^ 53"
  proof -
    have "\<bar>x / q\<bar> < of_int (2 ^ 53)" using sc by simp
    then show ?thesis unfolding k_def by (rule round_half_even_abs_le)
  qed
  show ?thesis
  proof (cases "k = 0")
    case True
    then show ?thesis by (simp add: y round64_def)
  next
    case k0: False
    then have y0: "y \<noteq> 0" using q0 by (simp add: y)
    have grid: "round64 y = Finite y" if "quantum64 y = q"
    proof (rule round64_grid [OF _ ylt])
      show "y / quantum64 y = of_int k" using that q0 by (simp add: y)
    qed
    show ?thesis
    proof (cases "- 1022 \<le> \<lfloor>log 2 \<bar>x\<bar>\<rfloor>")
      case True
      then have EL: "E = \<lfloor>log 2 \<bar>x\<bar>\<rfloor>" by (simp add: E_def exponent64_def)
      have "q * 2 ^ 52 \<le> \<bar>x\<bar>" using log2_floor_bounds(1) [OF False] by (simp only: q52 EL)
      then have lo: "2 ^ 52 \<le> \<bar>x / q\<bar>" using q0 by (simp add: pos_le_divide_eq mult.commute abs_of_pos)
      have klb: "2 ^ 52 \<le> \<bar>k\<bar>"
      proof -
        have "of_int (2 ^ 52) \<le> \<bar>x / q\<bar>" using lo by simp
        then show ?thesis unfolding k_def by (rule round_half_even_abs_ge)
      qed
      have ylo: "2 powi E \<le> \<bar>y\<bar>"
      proof -
        have "(of_int (2 ^ 52) :: real) \<le> of_int \<bar>k\<bar>"
          using klb by (simp only: of_int_le_iff)
        then have "(2 ^ 52 :: real) \<le> of_int \<bar>k\<bar>" by simp
        then have "q * 2 ^ 52 \<le> q * of_int \<bar>k\<bar>"
          using q0 by (intro mult_left_mono) simp_all
        then show ?thesis by (simp add: absy q52 [symmetric] mult.commute)
      qed
      show ?thesis
      proof (cases "\<bar>k\<bar> = 2 ^ 53")
        case True
        have ay: "\<bar>y\<bar> = 2 powi (E + 1)" by (simp add: absy True q53 [symmetric] mult.commute)
        have "\<bar>y\<bar> < 2 powi (E + 1 + 1)"
          unfolding ay by (rule power_int_strict_increasing) simp_all
        then have "\<lfloor>log 2 \<bar>y\<bar>\<rfloor> = E + 1" by (intro log2_floor_eq) (simp_all add: ay)
        moreover have "- 1022 \<le> E" by (simp add: E_def exponent64_def)
        ultimately have "exponent64 y = E + 1" by (simp add: exponent64_def)
        then have qy: "quantum64 y = 2 * q"
          using power_int_add [of "2::real" "E - 52" 1] by (simp add: quantum64_def q_def E_def)
        have "k = 2 ^ 53 \<or> k = - (2 ^ 53)" using True by linarith
        then have half: "of_int k = 2 * (of_int (k div 2) :: real)" by auto
        have "y / quantum64 y = y / (2 * q)" by (simp only: qy)
        also have "\<dots> = of_int k * q / (2 * q)" by (simp only: y)
        also have "\<dots> = of_int (k div 2)" using q0 by (simp add: half)
        finally have "y / quantum64 y = of_int (k div 2)" .
        then show ?thesis using ylt by (rule round64_grid)
      next
        case False
        then have "\<bar>k\<bar> < 2 ^ 53" using kub by simp
        then have "(of_int \<bar>k\<bar> :: real) < of_int (2 ^ 53)"
          by (simp only: of_int_less_iff)
        then have "(of_int \<bar>k\<bar> :: real) < 2 ^ 53" by simp
        then have "q * of_int \<bar>k\<bar> < q * 2 ^ 53"
          using q0 by (intro mult_strict_left_mono) simp_all
        then have "\<bar>y\<bar> < 2 powi (E + 1)" by (simp add: absy q53 [symmetric] mult.commute)
        with ylo have "\<lfloor>log 2 \<bar>y\<bar>\<rfloor> = E" by (rule log2_floor_eq)
        moreover have "- 1022 \<le> E" by (simp add: E_def exponent64_def)
        ultimately have "exponent64 y = E" by (simp add: exponent64_def)
        then have "quantum64 y = q" by (simp add: quantum64_def q_def E_def)
        then show ?thesis by (rule grid)
      qed
    next
      case False
      then have E: "E = - 1022" by (simp add: E_def exponent64_def)
      have "\<lfloor>log 2 \<bar>x\<bar>\<rfloor> + 1 \<le> E" using False E by linarith
      then have "(2::real) powi (\<lfloor>log 2 \<bar>x\<bar>\<rfloor> + 1) \<le> 2 powi E"
        by (intro power_int_increasing) simp_all
      then have "\<bar>x\<bar> < q * 2 ^ 52" using log2_floor_bounds(2) [OF \<open>x \<noteq> 0\<close>] by (simp only: q52)
      then have "\<bar>x / q\<bar> < 2 ^ 52" using q0 by (simp add: pos_divide_less_eq mult.commute abs_of_pos)
      then have "\<bar>x / q\<bar> < of_int (2 ^ 52)" by simp
      then have "\<bar>k\<bar> \<le> 2 ^ 52" unfolding k_def by (rule round_half_even_abs_le)
      then have "(of_int \<bar>k\<bar> :: real) \<le> of_int (2 ^ 52)"
        by (simp only: of_int_le_iff)
      then have "(of_int \<bar>k\<bar> :: real) \<le> 2 ^ 52" by simp
      then have "q * of_int \<bar>k\<bar> \<le> q * 2 ^ 52"
        using q0 by (intro mult_left_mono) simp_all
      then have yle: "\<bar>y\<bar> \<le> 2 powi E" by (simp add: absy q52 [symmetric] mult.commute)
      have "(2::real) powi \<lfloor>log 2 \<bar>y\<bar>\<rfloor> < 2 powi (E + 1)"
      proof -
        have "(2::real) powi \<lfloor>log 2 \<bar>y\<bar>\<rfloor> \<le> \<bar>y\<bar>" by (rule log2_floor_bounds(1) [OF y0])
        also have "\<dots> \<le> 2 powi E" by (rule yle)
        also have "\<dots> < 2 powi (E + 1)" by (rule power_int_strict_increasing) simp_all
        finally show ?thesis .
      qed
      then have "\<lfloor>log 2 \<bar>y\<bar>\<rfloor> < E + 1" by (rule power_int_2_less_cancel)
      then have "exponent64 y = E" by (simp add: exponent64_def E)
      then have "quantum64 y = q" by (simp add: quantum64_def q_def E_def)
      then show ?thesis by (rule grid)
    qed
  qed
qed

lemma round64_0 [simp]: "round64 0 = Finite 0"
  by (simp add: round64_def)

lemma round64_numeral:
  "(numeral n :: int) < 2 ^ 53 \<Longrightarrow> round64 (numeral n) = Finite (numeral n)"
  "(numeral n :: int) < 2 ^ 53 \<Longrightarrow> round64 (- numeral n) = Finite (- numeral n)"
  using round64_of_int [of "numeral n"] round64_of_int [of "- numeral n"] by simp_all

lemma f64_ops [simp]:
  "fadd (Finite x) (Finite y) = round64 (x + y)"
  "fsub (Finite x) (Finite y) = round64 (x - y)"
  "fmul (Finite x) (Finite y) = round64 (x * y)"
  by (simp_all add: fadd_def fsub_def fmul_def)

lemma fadd_float64: "fadd a b = Finite c \<Longrightarrow> round64 c = Finite c"
  by (cases a; cases b) (simp_all add: fadd_def round64_idem)



subsection \<open>The anchor of an arrow\<close>




lemma set_arrow_position_present:
  assumes "data_vars (dataset g) (x_name g) = Some xa" and "flat xa \<noteq> []"
    and "data_vars (dataset g) (y_name g) = Some ya" and "flat ya \<noteq> []"
    and "data_vars (dataset g) (topo_bedrock g) = Some za" and "flat za \<noteq> []"
  shows "set_arrow_position a g =
           Inr (a\<lparr>arrow_cent := Some
             (get_position (dtype xa) (Min (set (flat xa))) (Max (set (flat xa))) (x_position a),
              get_position (dtype ya) (Min (set (flat ya))) (Max (set (flat ya))) (y_position a),
              get_position (dtype za) (Min (set (flat za))) (Max (set (flat za))) (z_position a))\<rparr>)"
  using assms
  by (simp add: set_arrow_position_def field_min_present field_max_present field_dtype_present)



lemma ex_fields:
  "data_vars (dataset ex_viz) (x_name ex_viz) = Some \<lparr>dtype = Float64, shape = [2], flat = [0, 10]\<rparr>"
  "data_vars (dataset ex_viz) (y_name ex_viz) = Some \<lparr>dtype = Float64, shape = [2], flat = [0, 20]\<rparr>"
  "data_vars (dataset ex_viz) (topo_bedrock ex_viz) =
     Some \<lparr>dtype = Float64, shape = [2, 2], flat = [100, 150, 120, 200]\<rparr>"
  by (simp_all add: ex_viz_def ex_dataset_def)









subsection \<open>The magnitude of an arrow\<close>

text \<open>
  C2. When the dataset holds a non-empty y field, \<^verbatim>\<open>set_arrow_magnitude\<close> stores
  arrow\_magnitude\_relative * (max(y) - min(y)): only the y extent enters. An annotation
  that differs in its direction vector and in its three position fractions gets the same
  magnitude.
\<close>

theorem set_arrow_magnitude_y_extent:
  assumes "data_vars (dataset g) (y_name g) = Some ya" and "flat ya \<noteq> []"
  shows "set_arrow_magnitude a g =
           Inr (a\<lparr>arrow_magnitude := Some
             (arrow_magnitude_relative a * (Max (set (flat ya)) - Min (set (flat ya))))\<rparr>)
         \<and> set_arrow_magnitude
              (a\<lparr>arrow_direction := d, x_position := px, y_position := py, z_position := pz\<rparr>) g =
           Inr (a\<lparr>arrow_direction := d, x_position := px, y_position := py, z_position := pz,
                  arrow_magnitude := Some
             (arrow_magnitude_relative a * (Max (set (flat ya)) - Min (set (flat ya))))\<rparr>)"
  using assms
  by (simp add: set_arrow_magnitude_def field_min_present field_max_present mult.commute)

theorem set_arrow_magnitude_y_extent_witness:
  "set_arrow_magnitude ex_arrow ex_viz = Inr (ex_arrow\<lparr>arrow_magnitude := Some 2\<rparr>)
   \<and> set_arrow_magnitude
        (ex_arrow\<lparr>arrow_direction := (1, 0, 0), x_position := 0, y_position := 1, z_position := 2\<rparr>)
        ex_viz =
      Inr (ex_arrow\<lparr>arrow_direction := (1, 0, 0), x_position := 0, y_position := 1,
                    z_position := 2, arrow_magnitude := Some 2\<rparr>)"
  using set_arrow_magnitude_y_extent [where g = ex_viz
      and ya = "\<lparr>dtype = Float64, shape = [2], flat = [0, 20]\<rparr>"
      and a = ex_arrow and d = "(1, 0, 0)" and px = 0 and py = 1 and pz = 2]
  by (simp add: ex_viz_def ex_dataset_def ex_arrow_def)

subsection \<open>The draw calls of an arrow\<close>

lemma splat_dict:
  "heap w a = Some (DictObj d) \<Longrightarrow> \<not> clashes named d \<Longrightarrow> splat named a w = (Inr d, w)"
  by (simp add: splat_def)

lemma clashes_Nil [simp]: "\<not> clashes [] d"
  by (simp add: clashes_def)

lemma Arrow_add_annotation_draws:
  assumes "set_arrow_position a (viz w) = Inr (a\<lparr>arrow_cent := Some cent\<rparr>)"
    and "set_arrow_magnitude (a\<lparr>arrow_cent := Some cent\<rparr>) (viz w) =
           Inr (a\<lparr>arrow_cent := Some cent, arrow_magnitude := Some mag\<rparr>)"
    and "heap w (arrow_kwargs a) = Some (DictObj akw)"
    and "\<not> clashes [''cent'', ''direction'', ''mag''] akw"
    and "heap w (text_kwargs a) = Some (DictObj tkw)"
  shows "Arrow_add_annotation a w =
           (Inr (a\<lparr>arrow_cent := Some cent, arrow_magnitude := Some mag\<rparr>),
            w\<lparr>calls := calls w @
                 [Add_arrows cent (arrow_direction a) mag akw,
                  Add_point_labels
                    [fv_add cent
                       (fv_scale (fv_scale (fv_of (arrow_direction a)) mag) (text_position a))]
                    [arrow_text a] tkw]\<rparr>)"
  using assms
  by (simp add: Arrow_add_annotation_def wbind_def lift_def splat_dict plot_def wreturn_def)

lemma set_arrow_position_cent:
  assumes "set_arrow_position a g = Inr a'"
    and "arrow_cent a' = Some (Finite cx, Finite cy, Finite cz)"
  shows "round64 cx = Finite cx" and "round64 cy = Finite cy" and "round64 cz = Finite cz"
  using assms
  by (auto simp: set_arrow_position_def sbind_def get_position_def split: sum.splits
      dest: fadd_float64)

lemma label_component:
  assumes "round64 (d * mag) = Finite u" and "round64 (u * tp) = Finite v"
    and "round64 (c + v) = Finite p"
  shows "fadd (Finite c) (fmul (fmul (Finite d) (Finite mag)) (Finite tp)) = Finite p"
  using assms by simp

text \<open>
  C3. Take a render of an arrow whose position step gives the finite anchor
  \<open>(cx, cy, cz)\<close> and whose magnitude step gives \<open>mag\<close>, with direction \<open>(dx, dy, dz)\<close>
  and option dictionaries that repeat none of the keywords \<^verbatim>\<open>cent\<close>, \<^verbatim>\<open>direction\<close>,
  \<^verbatim>\<open>mag\<close>. It issues two calls: the arrow at the anchor, and the text label at
  anchor + direction * magnitude * text\_position, computed in float64 component by
  component: with \<open>u\<close> the rounded product direction * magnitude, \<open>v\<close> the rounded product
  \<open>u\<close> * text\_position and \<open>p\<close> the rounded sum anchor + \<open>v\<close>, the label point is \<open>p\<close>.
  With text\_position 0 the point is the anchor itself; with text\_position 1 it is the
  float64 sum of the anchor and direction * magnitude.
\<close>

theorem arrow_text_point:
  assumes "set_arrow_position a (viz w) =
             Inr (a\<lparr>arrow_cent := Some (Finite cx, Finite cy, Finite cz)\<rparr>)"
    and "set_arrow_magnitude (a\<lparr>arrow_cent := Some (Finite cx, Finite cy, Finite cz)\<rparr>) (viz w) =
           Inr (a\<lparr>arrow_cent := Some (Finite cx, Finite cy, Finite cz),
                  arrow_magnitude := Some mag\<rparr>)"
    and "arrow_direction a = (dx, dy, dz)"
    and "heap w (arrow_kwargs a) = Some (DictObj akw)"
    and "\<not> clashes [''cent'', ''direction'', ''mag''] akw"
    and "heap w (text_kwargs a) = Some (DictObj tkw)"
    and "round64 (dx * mag) = Finite ux" and "round64 (ux * text_position a) = Finite vx"
    and "round64 (cx + vx) = Finite px"
    and "round64 (dy * mag) = Finite uy" and "round64 (uy * text_position a) = Finite vy"
    and "round64 (cy + vy) = Finite py"
    and "round64 (dz * mag) = Finite uz" and "round64 (uz * text_position a) = Finite vz"
    and "round64 (cz + vz) = Finite pz"
  shows "Arrow_add_annotation a w =
           (Inr (a\<lparr>arrow_cent := Some (Finite cx, Finite cy, Finite cz),
                   arrow_magnitude := Some mag\<rparr>),
            w\<lparr>calls := calls w @
                 [Add_arrows (Finite cx, Finite cy, Finite cz) (dx, dy, dz) mag akw,
                  Add_point_labels [(Finite px, Finite py, Finite pz)] [arrow_text a] tkw]\<rparr>)
         \<and> (text_position a = 0 \<longrightarrow> px = cx \<and> py = cy \<and> pz = cz)
         \<and> (text_position a = 1 \<longrightarrow>
               round64 (cx + ux) = Finite px \<and> round64 (cy + uy) = Finite py
               \<and> round64 (cz + uz) = Finite pz)"
proof -
  have pt: "fv_add (Finite cx, Finite cy, Finite cz)
              (fv_scale (fv_scale (fv_of (dx, dy, dz)) mag) (text_position a))
            = (Finite px, Finite py, Finite pz)"
    using label_component [OF assms(7,8,9)] label_component [OF assms(10,11,12)]
      label_component [OF assms(13,14,15)]
    by (simp add: fv_add_def fv_scale_def fv_of_def)
  have render: "Arrow_add_annotation a w =
           (Inr (a\<lparr>arrow_cent := Some (Finite cx, Finite cy, Finite cz),
                   arrow_magnitude := Some mag\<rparr>),
            w\<lparr>calls := calls w @
                 [Add_arrows (Finite cx, Finite cy, Finite cz) (dx, dy, dz) mag akw,
                  Add_point_labels [(Finite px, Finite py, Finite pz)] [arrow_text a] tkw]\<rparr>)"
    using Arrow_add_annotation_draws [OF assms(1,2,4,5,6)] by (simp add: pt assms(3))
  have c: "round64 cx = Finite cx" "round64 cy = Finite cy" "round64 cz = Finite cz"
    using set_arrow_position_cent [OF assms(1)] by simp_all
  have zero: "px = cx \<and> py = cy \<and> pz = cz" if "text_position a = 0"
    using assms(8,9,11,12,14,15) c that by simp
  have one: "round64 (cx + ux) = Finite px \<and> round64 (cy + uy) = Finite py
               \<and> round64 (cz + uz) = Finite pz" if "text_position a = 1"
    using assms(8,9,11,12,14,15) round64_idem [OF assms(7)] round64_idem [OF assms(10)]
      round64_idem [OF assms(13)] that by simp
  show ?thesis using render zero one by blast
qed

lemma ex_set_arrow_position:
  assumes "x_position b = 1 / 2" and "y_position b = 1 / 2" and "z_position b = 1 / 2"
  shows "set_arrow_position b ex_viz = Inr (b\<lparr>arrow_cent := Some (Finite 5, Finite 10, Finite 150)\<rparr>)"
proof -
  have "get_position Float64 0 10 (1 / 2) = Finite 5"
    "get_position Float64 0 20 (1 / 2) = Finite 10"
    "get_position Float64 100 200 (1 / 2) = Finite 150"
    by (simp_all add: get_position_def as_float64_def np_subtract_def round64_numeral)
  then show ?thesis
    using set_arrow_position_present [OF ex_fields(1) _ ex_fields(2) _ ex_fields(3), of b] assms
    by simp
qed

lemma ex_set_arrow_magnitude:
  assumes "arrow_magnitude_relative b = 1 / 10"
  shows "set_arrow_magnitude b ex_viz = Inr (b\<lparr>arrow_magnitude := Some 2\<rparr>)"
  using assms ex_fields(2)
  by (simp add: set_arrow_magnitude_def field_min_present field_max_present)

theorem arrow_text_point_witness:
  "Arrow_add_annotation ex_arrow_xy ex_world =
     (Inr (ex_arrow_xy\<lparr>arrow_cent := Some (Finite 5, Finite 10, Finite 150),
                        arrow_magnitude := Some 2\<rparr>),
      ex_world\<lparr>calls :=
        [Add_arrows (Finite 5, Finite 10, Finite 150) (3, 1, 0) 2 Map.empty,
         Add_point_labels [(Finite 14, Finite 13, Finite 150)] [''N'']
           [''font_size'' \<mapsto> VInt 12]]\<rparr>)
   \<and> calls (snd (Arrow_add_annotation (ex_arrow_xy\<lparr>text_position := 0\<rparr>) ex_world)) =
        [Add_arrows (Finite 5, Finite 10, Finite 150) (3, 1, 0) 2 Map.empty,
         Add_point_labels [(Finite 5, Finite 10, Finite 150)] [''N'']
           [''font_size'' \<mapsto> VInt 12]]
   \<and> calls (snd (Arrow_add_annotation (ex_arrow_xy\<lparr>text_position := 1\<rparr>) ex_world)) =
        [Add_arrows (Finite 5, Finite 10, Finite 150) (3, 1, 0) 2 Map.empty,
         Add_point_labels [(Finite 11, Finite 12, Finite 150)] [''N'']
           [''font_size'' \<mapsto> VInt 12]]"
proof -
  have v: "viz ex_world = ex_viz" and c0: "calls ex_world = []"
    by (simp_all add: ex_world_def)
  have pos: "set_arrow_position (ex_arrow_xy\<lparr>text_position := tp\<rparr>) (viz ex_world) =
               Inr (ex_arrow_xy\<lparr>text_position := tp,
                                 arrow_cent := Some (Finite 5, Finite 10, Finite 150)\<rparr>)" for tp
    unfolding v by (rule ex_set_arrow_position) (simp_all add: ex_arrow_xy_def)
  have magn: "set_arrow_magnitude
                (ex_arrow_xy\<lparr>text_position := tp,
                              arrow_cent := Some (Finite 5, Finite 10, Finite 150)\<rparr>) (viz ex_world) =
               Inr (ex_arrow_xy\<lparr>text_position := tp,
                      arrow_cent := Some (Finite 5, Finite 10, Finite 150),
                      arrow_magnitude := Some 2\<rparr>)" for tp
    unfolding v by (rule ex_set_arrow_magnitude) (simp add: ex_arrow_xy_def)
  have dir: "arrow_direction (ex_arrow_xy\<lparr>text_position := tp\<rparr>) = (3, 1, 0)" for tp
    by (simp add: ex_arrow_xy_def)
  have ka: "heap ex_world (arrow_kwargs (ex_arrow_xy\<lparr>text_position := tp\<rparr>)) =
              Some (DictObj Map.empty)"
    and kt: "heap ex_world (text_kwargs (ex_arrow_xy\<lparr>text_position := tp\<rparr>)) =
              Some (DictObj [''font_size'' \<mapsto> VInt 12])" for tp
    by (simp_all add: ex_world_def ex_heap_def ex_arrow_xy_def)
  have nc: "\<not> clashes [''cent'', ''direction'', ''mag''] Map.empty"
    by (simp add: clashes_def)
  have u: "round64 (3 * 2) = Finite 6" "round64 (1 * 2) = Finite 2" "round64 (0 * 2) = Finite 0"
    by (simp_all add: round64_numeral)
  have half: "round64 (6 * text_position (ex_arrow_xy\<lparr>text_position := 3 / 2\<rparr>)) = Finite 9"
    "round64 (5 + 9) = Finite 14"
    "round64 (2 * text_position (ex_arrow_xy\<lparr>text_position := 3 / 2\<rparr>)) = Finite 3"
    "round64 (10 + 3) = Finite 13"
    "round64 (0 * text_position (ex_arrow_xy\<lparr>text_position := 3 / 2\<rparr>)) = Finite 0"
    "round64 (150 + 0) = Finite 150"
    by (simp_all add: round64_numeral)
  have zero: "round64 (6 * text_position (ex_arrow_xy\<lparr>text_position := 0\<rparr>)) = Finite 0"
    "round64 (5 + 0) = Finite 5"
    "round64 (2 * text_position (ex_arrow_xy\<lparr>text_position := 0\<rparr>)) = Finite 0"
    "round64 (10 + 0) = Finite 10"
    "round64 (0 * text_position (ex_arrow_xy\<lparr>text_position := 0\<rparr>)) = Finite 0"
    by (simp_all add: round64_numeral)
  have one: "round64 (6 * text_position (ex_arrow_xy\<lparr>text_position := 1\<rparr>)) = Finite 6"
    "round64 (5 + 6) = Finite 11"
    "round64 (2 * text_position (ex_arrow_xy\<lparr>text_position := 1\<rparr>)) = Finite 2"
    "round64 (10 + 2) = Finite 12"
    "round64 (0 * text_position (ex_arrow_xy\<lparr>text_position := 1\<rparr>)) = Finite 0"
    by (simp_all add: round64_numeral)
  note i_half = arrow_text_point [OF pos magn dir ka nc kt u(1) half(1,2) u(2) half(3,4)
      u(3) half(5,6)]
  note i_zero = arrow_text_point [OF pos magn dir ka nc kt u(1) zero(1,2) u(2) zero(3,4)
      u(3) zero(5) half(6)]
  note i_one = arrow_text_point [OF pos magn dir ka nc kt u(1) one(1,2) u(2) one(3,4)
      u(3) one(5) half(6)]
  have same: "ex_arrow_xy\<lparr>text_position := 3 / 2\<rparr> = ex_arrow_xy"
    by (simp add: ex_arrow_xy_def)
  have lbl: "arrow_text (ex_arrow_xy\<lparr>text_position := tp\<rparr>) = ''N''" for tp
    by (simp add: ex_arrow_xy_def)
  have lbl0: "arrow_text ex_arrow_xy = ''N''"
    by (simp add: ex_arrow_xy_def)
  show ?thesis
    using i_half i_zero i_one by (simp add: same c0 lbl lbl0)
qed

subsection \<open>The outline texture\<close>

lemma assign_rows_length:
  "length t = 4 * length ms \<Longrightarrow> length c = 4 \<Longrightarrow> length (assign_rows ms c t) = 4 * length ms"
  by (induction ms arbitrary: t) auto

lemma assign_rows_pixel:
  "length t = 4 * length ms \<Longrightarrow> length c = 4 \<Longrightarrow> i < length ms \<Longrightarrow>
   take 4 (drop (4 * i) (assign_rows ms c t)) = (if ms ! i then c else take 4 (drop (4 * i) t))"
proof (induction ms arbitrary: t i)
  case Nil
  then show ?case by simp
next
  case (Cons m ms)
  have len: "length (if m then c else take 4 t) = 4"
    using Cons.prems by simp
  show ?case
  proof (cases i)
    case 0
    then show ?thesis using len Cons.prems by simp
  next
    case (Suc j)
    have "take 4 (drop (4 * j) (assign_rows ms c (drop 4 t))) =
            (if ms ! j then c else take 4 (drop (4 * j) (drop 4 t)))"
      using Cons.prems Suc by (intro Cons.IH) simp_all
    moreover have "drop (4 * j) (drop 4 t) = drop (4 * Suc j) t"
      by (simp add: add.commute)
    ultimately show ?thesis
      using len Suc by simp
  qed
qed

lemma zero_pixel:
  "i < n \<Longrightarrow> take 4 (drop (4 * i) (replicate (4 * n) (0 :: byte))) = [0, 0, 0, 0]"
proof -
  assume "i < n"
  then have "4 \<le> 4 * n - 4 * i" by simp
  then have "take 4 (replicate (4 * n - 4 * i) (0 :: byte)) = replicate 4 0"
    by (simp add: min_def)
  then show ?thesis by (simp add: numeral_eq_Suc)
qed

lemma length_rgba_bytes [simp]: "length (rgba_bytes c) = 4"
  by (cases c) (simp add: rgba_bytes_def)

lemma outline_array_shape: "u8_shape (outline_array c m) = shape m @ [4]"
  by (simp add: outline_array_def np_zeros_def Let_def)

lemma outline_array_flat:
  "u8_flat (outline_array c m) =
     assign_rows (map (\<lambda>v. v = 1) (flat m)) (rgba_bytes c)
       (replicate (4 * prod_list (shape m)) 0)"
  by (simp add: outline_array_def np_zeros_def Let_def mult.commute)

lemma set_outline_texture_present:
  "data_vars (dataset gl) (outline_data a) = Some m \<Longrightarrow>
   set_outline_texture numpy_to_texture a gl =
     (case numpy_to_texture (outline_array (outline_color a) m) of
        Inl e \<Rightarrow> Inl e
      | Inr tex \<Rightarrow> Inr (a\<lparr>outline_texture := Some tex\<rparr>))"
  by (simp add: set_outline_texture_def getitem_def sbind_def)

lemma ex_outline_array:
  "outline_array (RGBA 0 0 0 255) \<lparr>dtype = Signed 8, shape = [2, 2], flat = [0, 1, 1, 0]\<rparr>
     = ex_texture"
  "outline_array (RGBA 10 20 30 255) \<lparr>dtype = Signed 8, shape = [2, 2], flat = [0, 1, 1, 0]\<rparr>
     = ex_texture_rgb"
  by (simp_all add: outline_array_def np_zeros_def Let_def rgba_bytes_def ex_texture_def
      ex_texture_rgb_def numeral_eq_Suc)

lemma ex_mask:
  "data_vars (dataset ex_viz) ''glacier_ext'' =
     Some \<lparr>dtype = Signed 8, shape = [2, 2], flat = [0, 1, 1, 0]\<rparr>"
  by (simp add: ex_viz_def ex_dataset_def)

lemma ex_set_outline_texture:
  "set_outline_texture ex_numpy_to_texture ex_outline ex_viz =
     Inr (ex_outline\<lparr>outline_texture := Some (Texture ex_texture)\<rparr>)"
  "set_outline_texture ex_numpy_to_texture ex_outline_rgb ex_viz =
     Inr (ex_outline_rgb\<lparr>outline_texture := Some (Texture ex_texture_rgb)\<rparr>)"
proof -
  have "ex_numpy_to_texture ex_texture = Inr (Texture ex_texture)"
    "ex_numpy_to_texture ex_texture_rgb = Inr (Texture ex_texture_rgb)"
    by (simp_all add: ex_numpy_to_texture_def ex_texture_def ex_texture_rgb_def)
  then show "set_outline_texture ex_numpy_to_texture ex_outline ex_viz =
     Inr (ex_outline\<lparr>outline_texture := Some (Texture ex_texture)\<rparr>)"
    "set_outline_texture ex_numpy_to_texture ex_outline_rgb ex_viz =
     Inr (ex_outline_rgb\<lparr>outline_texture := Some (Texture ex_texture_rgb)\<rparr>)"
    using ex_mask ex_outline_array
    by (simp_all add: set_outline_texture_present ex_outline_def ex_outline_rgb_def)
qed

text \<open>
  C4. For a colour that \<^verbatim>\<open>check_color\<close> normalises to the bytes \<open>r\<close>, \<open>g\<close>, \<open>b\<close>, \<open>al\<close>
  and a mask field of the dataset (as many elements as its shape says), the constructor
  followed by \<^verbatim>\<open>set_outline_texture\<close> builds one byte array and hands it to
  \<^verbatim>\<open>pv.numpy_to_texture\<close>, whose result or error is the result of
  \<^verbatim>\<open>set_outline_texture\<close>. That array has the mask's shape with 4 appended and four bytes
  per mask element; the four bytes of an element equal to 1 are \<open>r\<close>, \<open>g\<close>, \<open>b\<close>,
  \<open>al\<close>, those of any other element (0 in particular) are all zero, alpha included.
\<close>

theorem outline_texture_pixels:
  assumes "check_color color = Inr (RGBA r g b al)"
    and "data_vars (dataset gl) name = Some omask"
    and "length (flat omask) = prod_list (shape omask)"
  shows "\<exists>a arr. OutlineAnnotation_init check_color name color = Inr a
           \<and> (\<forall>numpy_to_texture.
                 set_outline_texture numpy_to_texture a gl =
                   (case numpy_to_texture arr of
                      Inl e \<Rightarrow> Inl e
                    | Inr tex \<Rightarrow> Inr (a\<lparr>outline_texture := Some tex\<rparr>)))
           \<and> u8_shape arr = shape omask @ [4]
           \<and> length (u8_flat arr) = 4 * length (flat omask)
           \<and> (\<forall>i < length (flat omask).
                 take 4 (drop (4 * i) (u8_flat arr)) =
                   (if flat omask ! i = 1 then [r, g, b, al] else [0, 0, 0, 0]))"
proof -
  let ?a = "\<lparr>outline_data = name, outline_color = RGBA r g b al, outline_texture = None\<rparr>"
  let ?ms = "map (\<lambda>v. v = 1) (flat omask)"
  let ?z = "replicate (4 * length (flat omask)) (0 :: byte)"
  let ?arr = "outline_array (RGBA r g b al) omask"
  have init: "OutlineAnnotation_init check_color name color = Inr ?a"
    using assms(1) by (simp add: OutlineAnnotation_init_def)
  have tex: "set_outline_texture numpy_to_texture ?a gl =
               (case numpy_to_texture ?arr of
                  Inl e \<Rightarrow> Inl e
                | Inr tex \<Rightarrow> Inr (?a\<lparr>outline_texture := Some tex\<rparr>))" for numpy_to_texture
    using set_outline_texture_present [of gl ?a omask numpy_to_texture] assms(2) by simp
  have fl: "u8_flat ?arr = assign_rows ?ms [r, g, b, al] ?z"
    by (simp add: outline_array_flat assms(3) rgba_bytes_def)
  have len: "length (u8_flat ?arr) = 4 * length (flat omask)"
    by (simp add: fl assign_rows_length)
  have pix: "take 4 (drop (4 * i) (u8_flat ?arr)) =
               (if flat omask ! i = 1 then [r, g, b, al] else [0, 0, 0, 0])"
    if "i < length (flat omask)" for i
  proof -
    have "take 4 (drop (4 * i) (assign_rows ?ms [r, g, b, al] ?z)) =
            (if ?ms ! i then [r, g, b, al] else take 4 (drop (4 * i) ?z))"
      using that by (intro assign_rows_pixel) simp_all
    then show ?thesis using that zero_pixel [OF that] by (simp add: fl)
  qed
  show ?thesis
    using init tex len pix outline_array_shape [of "RGBA r g b al" omask]
    by (intro exI [of _ ?a] exI [of _ ?arr]) simp
qed

theorem outline_texture_pixels_witness:
  "ex_check_color (VList [VInt 10, VInt 20, VInt 30, VInt 255]) = Inr (RGBA 10 20 30 255)
   \<and> OutlineAnnotation_init ex_check_color ''glacier_ext''
        (VList [VInt 10, VInt 20, VInt 30, VInt 255]) = Inr ex_outline_rgb
   \<and> set_outline_texture ex_numpy_to_texture ex_outline_rgb ex_viz =
       Inr (ex_outline_rgb\<lparr>outline_texture := Some (Texture ex_texture_rgb)\<rparr>)
   \<and> u8_shape ex_texture_rgb = [2, 2, 4]
   \<and> take 4 (drop (4 * 1) (u8_flat ex_texture_rgb)) = [10, 20, 30, 255]
   \<and> take 4 (drop (4 * 3) (u8_flat ex_texture_rgb)) = [0, 0, 0, 0]"
proof -
  let ?m = "\<lparr>dtype = Signed 8, shape = [2, 2], flat = [0, 1, 1, 0 :: real]\<rparr>"
  have cc: "ex_check_color (VList [VInt 10, VInt 20, VInt 30, VInt 255]) = Inr (RGBA 10 20 30 255)"
    by simp
  have wf: "length (flat ?m) = prod_list (shape ?m)" by simp
  have init: "OutlineAnnotation_init ex_check_color ''glacier_ext''
        (VList [VInt 10, VInt 20, VInt 30, VInt 255]) = Inr ex_outline_rgb"
    by (simp add: OutlineAnnotation_init_def ex_outline_rgb_def)
  from outline_texture_pixels [of ex_check_color, OF cc ex_mask wf]
  obtain a arr where a: "OutlineAnnotation_init ex_check_color ''glacier_ext''
        (VList [VInt 10, VInt 20, VInt 30, VInt 255]) = Inr a"
    and t: "set_outline_texture ex_numpy_to_texture a ex_viz =
              (case ex_numpy_to_texture arr of
                 Inl e \<Rightarrow> Inl e
               | Inr tex \<Rightarrow> Inr (a\<lparr>outline_texture := Some tex\<rparr>))"
    and sh: "u8_shape arr = shape ?m @ [4]"
    and px: "\<forall>i < length (flat ?m). take 4 (drop (4 * i) (u8_flat arr)) =
               (if flat ?m ! i = 1 then [10, 20, 30, 255] else [0, 0, 0, 0])"
    by blast
  have a': "a = ex_outline_rgb" using a init by simp
  have "(case ex_numpy_to_texture arr of
           Inl e \<Rightarrow> Inl e
         | Inr tex \<Rightarrow> Inr (ex_outline_rgb\<lparr>outline_texture := Some tex\<rparr>)) =
        Inr (ex_outline_rgb\<lparr>outline_texture := Some (Texture ex_texture_rgb)\<rparr>)"
    using t [unfolded a'] ex_set_outline_texture(2) by simp
  then have "ex_outline_rgb\<lparr>outline_texture := Some (Texture arr)\<rparr> =
               ex_outline_rgb\<lparr>outline_texture := Some (Texture ex_texture_rgb)\<rparr>"
    by (simp add: ex_numpy_to_texture_def split: if_splits)
  from arg_cong [OF this, of outline_texture] have arr: "arr = ex_texture_rgb" by simp
  have "take 4 (drop (4 * 1) (u8_flat ex_texture_rgb)) = [10, 20, 30, 255]"
    "take 4 (drop (4 * 3) (u8_flat ex_texture_rgb)) = [0, 0, 0, 0]"
    using px [rule_format, of 1] px [rule_format, of 3] by (simp_all add: arr)
  then show ?thesis
    using cc init ex_set_outline_texture(2) sh by (simp add: arr)
qed

text \<open>
  C7, as the code has it. The render of an outline never looks at the grid of the terrain
  mesh: whenever the dataset holds the mask field, \<^verbatim>\<open>pv.numpy_to_texture\<close> accepts the
  byte array built from it, and the context refers to an object of the store, the render
  succeeds; the texture comes from an array of the mask's shape (with 4 appended), and the
  draw-mesh call receives a fresh copy of that object with the texture, whatever the
  object is and whatever grid shape it has.
\<close>

theorem outline_render_ignores_mesh_shape:
  assumes "data_vars (dataset (viz w)) (outline_data a) = Some omask"
    and "numpy_to_texture (outline_array (outline_color a) omask) = Inr tex"
    and "heap w (topo_mesh (viz w)) = Some ob"
  shows "Outline_add_annotation numpy_to_texture touch a w =
           (Inr (a\<lparr>outline_texture := Some tex\<rparr>),
            w\<lparr>heap := (heap w)(next_addr w \<mapsto> touch ob tex),
              next_addr := Suc (next_addr w),
              calls := calls w @ [Add_mesh (next_addr w) tex]\<rparr>)
         \<and> u8_shape (outline_array (outline_color a) omask) = shape omask @ [4]"
proof -
  have "set_outline_texture numpy_to_texture a (viz w) = Inr (a\<lparr>outline_texture := Some tex\<rparr>)"
    using assms(1,2) by (simp add: set_outline_texture_present)
  then have "Outline_add_annotation numpy_to_texture touch a w =
           (Inr (a\<lparr>outline_texture := Some tex\<rparr>),
            w\<lparr>heap := (heap w)(next_addr w \<mapsto> touch ob tex),
              next_addr := Suc (next_addr w),
              calls := calls w @ [Add_mesh (next_addr w) tex]\<rparr>)"
    using assms(3)
    by (simp add: Outline_add_annotation_def wbind_def lift_def deepcopy_def add_mesh_def
        wreturn_def)
  then show ?thesis by (simp add: outline_array_shape)
qed

lemma ex_outline_render_facts:
  "data_vars (dataset (viz ex_world)) (outline_data ex_outline) =
     Some \<lparr>dtype = Signed 8, shape = [2, 2], flat = [0, 1, 1, 0]\<rparr>"
  "ex_numpy_to_texture
     (outline_array (outline_color ex_outline)
        \<lparr>dtype = Signed 8, shape = [2, 2], flat = [0, 1, 1, 0]\<rparr>) = Inr (Texture ex_texture)"
  "heap ex_world (topo_mesh (viz ex_world)) =
     Some (MeshObj \<lparr>grid_shape = [3, 3], active_t_coords = None\<rparr>)"
proof -
  show "data_vars (dataset (viz ex_world)) (outline_data ex_outline) =
     Some \<lparr>dtype = Signed 8, shape = [2, 2], flat = [0, 1, 1, 0]\<rparr>"
    using ex_mask by (simp add: ex_world_def ex_outline_def)
  have "outline_color ex_outline = RGBA 0 0 0 255" by (simp add: ex_outline_def)
  then show "ex_numpy_to_texture
     (outline_array (outline_color ex_outline)
        \<lparr>dtype = Signed 8, shape = [2, 2], flat = [0, 1, 1, 0]\<rparr>) = Inr (Texture ex_texture)"
    by (simp add: ex_outline_array(1)) (simp add: ex_numpy_to_texture_def ex_texture_def)
  show "heap ex_world (topo_mesh (viz ex_world)) =
     Some (MeshObj \<lparr>grid_shape = [3, 3], active_t_coords = None\<rparr>)"
    by (simp add: ex_world_def ex_viz_def ex_heap_def ex_mesh_def)
qed

theorem outline_render_ignores_mesh_shape_witness:
  "heap ex_world (topo_mesh (viz ex_world)) =
     Some (MeshObj \<lparr>grid_shape = [3, 3], active_t_coords = None\<rparr>)
   \<and> Outline_add_annotation ex_numpy_to_texture ex_touch ex_outline ex_world =
       (Inr (ex_outline\<lparr>outline_texture := Some (Texture ex_texture)\<rparr>),
        ex_world\<lparr>heap := (heap ex_world)
                     (6 \<mapsto> MeshObj \<lparr>grid_shape = [3, 3],
                                     active_t_coords = Some ''Texture Coordinates''\<rparr>),
                  next_addr := 7,
                  calls := [Add_mesh 6 (Texture ex_texture)]\<rparr>)"
proof -
  have "next_addr ex_world = 6" "calls ex_world = []"
    by (simp_all add: ex_world_def)
  then show ?thesis
    using outline_render_ignores_mesh_shape [of ex_world ex_outline _ ex_numpy_to_texture
        "Texture ex_texture" _ ex_touch, OF ex_outline_render_facts]
      ex_outline_render_facts(3)
    by simp
qed

text \<open>
  The claim C7 as stated fails: a 2 x 2 mask on a 3 x 3 mesh is rendered without an error.
\<close>

theorem outline_mismatch_counterexample:
  "data_vars (dataset (viz ex_world)) (outline_data ex_outline) =
     Some \<lparr>dtype = Signed 8, shape = [2, 2], flat = [0, 1, 1, 0]\<rparr>
   \<and> heap ex_world (topo_mesh (viz ex_world)) =
       Some (MeshObj \<lparr>grid_shape = [3, 3], active_t_coords = None\<rparr>)
   \<and> fst (Outline_add_annotation ex_numpy_to_texture ex_touch ex_outline ex_world) =
       Inr (ex_outline\<lparr>outline_texture := Some (Texture ex_texture)\<rparr>)"
proof -
  have tx: "set_outline_texture ex_numpy_to_texture ex_outline (viz ex_world) =
              Inr (ex_outline\<lparr>outline_texture := Some (Texture ex_texture)\<rparr>)"
    using ex_set_outline_texture(1) by (simp add: ex_world_def)
  have "fst (Outline_add_annotation ex_numpy_to_texture ex_touch ex_outline ex_world) =
          Inr (ex_outline\<lparr>outline_texture := Some (Texture ex_texture)\<rparr>)"
    by (simp add: Outline_add_annotation_def wbind_def lift_def deepcopy_def add_mesh_def
        wreturn_def tx ex_outline_render_facts(3))
  then show ?thesis using ex_outline_render_facts(1,3) by simp
qed

subsection \<open>The legend\<close>

text \<open>
  C5. The documentation of \<^verbatim>\<open>LegendAnnotation\<close> says "If None, uses existing labels",
  but the constructor iterates over \<^verbatim>\<open>self.labels\<close> unconditionally: with
  \<open>labels = None\<close> it raises TypeError, whatever the options and the store, and no
  annotation is built.
\<close>

theorem legend_init_without_labels:
  "LegendAnnotation_init check_color None kw w = (Inl TypeError, w)"
  by (simp add: LegendAnnotation_init_def)

lemma dict_setdefault_map_add: "dict_setdefault k v d = [k \<mapsto> v] ++ d"
  by (rule ext) (simp add: dict_setdefault_def map_add_def split: option.splits)

lemma legend_setdefaults:
  "dict_setdefault ''face'' v4
     (dict_setdefault ''loc'' v3 (dict_setdefault ''size'' v2 (dict_setdefault ''bcolor'' v1 kw)))
   = [''bcolor'' \<mapsto> v1, ''size'' \<mapsto> v2, ''loc'' \<mapsto> v3, ''face'' \<mapsto> v4] ++ kw"
  by (rule ext) (simp add: dict_setdefault_map_add map_add_def split: option.splits)

lemma legend_defaults_no_clash:
  "\<not> clashes [''self'', ''labels''] kw \<Longrightarrow> \<not> clashes [''labels''] (legend_defaults ++ kw)"
  by (simp add: clashes_def map_add_def legend_defaults_def split: option.splits)

text \<open>
  C6, as the code has it. With keyword options that repeat neither \<^verbatim>\<open>self\<close> nor
  \<^verbatim>\<open>labels\<close>, an empty label list is accepted: the constructor succeeds without touching
  the store, keeps the empty list and merges the defaults into the options, and the render
  passes the empty list on to the legend-draw primitive. The annotation has no check of
  its own for an empty list.
\<close>

theorem legend_empty_labels_accepted:
  assumes "\<not> clashes [''self'', ''labels''] kw"
  shows "LegendAnnotation_init check_color (Some []) kw w =
           (Inr \<lparr>labels = Some [], legend_kwargs = legend_defaults ++ kw\<rparr>, w)
         \<and> Legend_add_annotation \<lparr>labels = Some [], legend_kwargs = legend_defaults ++ kw\<rparr> w =
           (Inr \<lparr>labels = Some [], legend_kwargs = legend_defaults ++ kw\<rparr>,
            w\<lparr>calls := calls w @ [Add_legend (Some []) (legend_defaults ++ kw)]\<rparr>)"
  using assms legend_defaults_no_clash [OF assms]
  by (simp add: LegendAnnotation_init_def Legend_add_annotation_def wbind_def wreturn_def
      plot_def legend_setdefaults legend_defaults_def)

theorem legend_empty_labels_accepted_witness:
  "\<not> clashes [''self'', ''labels''] Map.empty
   \<and> LegendAnnotation_init ex_check_color (Some []) Map.empty ex_world =
       (Inr \<lparr>labels = Some [], legend_kwargs = legend_defaults\<rparr>, ex_world)
   \<and> Legend_add_annotation \<lparr>labels = Some [], legend_kwargs = legend_defaults\<rparr> ex_world =
       (Inr \<lparr>labels = Some [], legend_kwargs = legend_defaults\<rparr>,
        ex_world\<lparr>calls := [Add_legend (Some []) legend_defaults]\<rparr>)"
proof -
  have nc: "\<not> clashes [''self'', ''labels''] Map.empty" by (simp add: clashes_def)
  have "calls ex_world = []" by (simp add: ex_world_def)
  then show ?thesis
    using nc legend_empty_labels_accepted [OF nc, of ex_check_color ex_world] by simp
qed

text \<open>
  The claim C6 as stated fails: with an empty list neither the constructor nor the render
  of the annotation raises.
\<close>

theorem legend_empty_labels_counterexample:
  "fst (LegendAnnotation_init ex_check_color (Some []) Map.empty ex_world) =
     Inr \<lparr>labels = Some [], legend_kwargs = legend_defaults\<rparr>
   \<and> fst (Legend_add_annotation \<lparr>labels = Some [], legend_kwargs = legend_defaults\<rparr> ex_world) =
     Inr \<lparr>labels = Some [], legend_kwargs = legend_defaults\<rparr>
   \<and> calls (snd (Legend_add_annotation \<lparr>labels = Some [], legend_kwargs = legend_defaults\<rparr> ex_world))
       = [Add_legend (Some []) legend_defaults]"
proof -
  have "legend_defaults ++ Map.empty = legend_defaults" by simp
  moreover have "\<not> clashes [''labels''] legend_defaults"
    by (simp add: clashes_def legend_defaults_def)
  ultimately show ?thesis
    by (simp add: LegendAnnotation_init_def Legend_add_annotation_def wbind_def wreturn_def
        plot_def legend_setdefaults clashes_def ex_world_def legend_defaults_def)
qed

subsection \<open>The shared context\<close>

lemma Point_frame:
  "viz (snd (Point_add_annotation proj p w)) = viz w
   \<and> heap (snd (Point_add_annotation proj p w)) = heap w
   \<and> (\<exists>new. calls (snd (Point_add_annotation proj p w)) = calls w @ new
         \<and> list_all (\<lambda>c. \<forall>tex. c \<noteq> Add_mesh m tex) new)"
  by (auto simp: Point_add_annotation_def wbind_def plot_def wreturn_def
      split: sum.splits option.splits prod.splits)

lemma Arrow_frame:
  "viz (snd (Arrow_add_annotation a w)) = viz w
   \<and> heap (snd (Arrow_add_annotation a w)) = heap w
   \<and> (\<exists>new. calls (snd (Arrow_add_annotation a w)) = calls w @ new
         \<and> list_all (\<lambda>c. \<forall>tex. c \<noteq> Add_mesh m tex) new)"
  by (auto simp: Arrow_add_annotation_def wbind_def lift_def plot_def wreturn_def wraise_def
      splat_def split: sum.splits option.splits prod.splits obj.splits if_splits)

lemma Legend_frame:
  "viz (snd (Legend_add_annotation a w)) = viz w
   \<and> heap (snd (Legend_add_annotation a w)) = heap w
   \<and> (\<exists>new. calls (snd (Legend_add_annotation a w)) = calls w @ new
         \<and> list_all (\<lambda>c. \<forall>tex. c \<noteq> Add_mesh m tex) new)"
  by (auto simp: Legend_add_annotation_def wbind_def plot_def wreturn_def)

lemma Outline_frame:
  "m < next_addr w \<Longrightarrow>
   viz (snd (Outline_add_annotation numpy_to_texture touch a w)) = viz w
   \<and> heap (snd (Outline_add_annotation numpy_to_texture touch a w)) m = heap w m
   \<and> (\<exists>new. calls (snd (Outline_add_annotation numpy_to_texture touch a w)) = calls w @ new
         \<and> list_all (\<lambda>c. \<forall>tex. c \<noteq> Add_mesh m tex) new)"
  by (auto simp: Outline_add_annotation_def wbind_def lift_def deepcopy_def add_mesh_def
      wreturn_def wraise_def split: sum.splits option.splits prod.splits)

text \<open>
  C9. Whatever the variant, and whether the render completes or raises, the world it leaves
  has the same visualisation context (dataset fields, projection string, field names, mesh
  reference), and the terrain mesh object the context refers to is unchanged, whatever the
  plotting surface does to the mesh it is handed (\<open>touch\<close>): no draw-mesh call issued by the
  render names the shared mesh, the outline draws a copy allocated at a fresh address. The
  hypothesis says that the mesh reference is an address already allocated.
\<close>

theorem render_leaves_context:
  assumes "topo_mesh (viz w) < next_addr w"
  shows "viz (snd (add_annotation proj numpy_to_texture touch ann w)) = viz w
         \<and> heap (snd (add_annotation proj numpy_to_texture touch ann w)) (topo_mesh (viz w)) =
             heap w (topo_mesh (viz w))
         \<and> (\<exists>new. calls (snd (add_annotation proj numpy_to_texture touch ann w)) = calls w @ new
               \<and> list_all (\<lambda>c. \<forall>tex. c \<noteq> Add_mesh (topo_mesh (viz w)) tex) new)"
proof (cases ann)
  case MapAnnotation
  then show ?thesis by simp
next
  case (PointAnnotation p)
  have "snd (add_annotation proj numpy_to_texture touch ann w) = snd (Point_add_annotation proj p w)"
    using PointAnnotation by (simp add: wbind_def wreturn_def split: prod.splits sum.splits)
  then show ?thesis using Point_frame [of proj p w "topo_mesh (viz w)"] by simp
next
  case (ArrowAnnotation a)
  have "snd (add_annotation proj numpy_to_texture touch ann w) = snd (Arrow_add_annotation a w)"
    using ArrowAnnotation by (simp add: wbind_def wreturn_def split: prod.splits sum.splits)
  then show ?thesis using Arrow_frame [of a w "topo_mesh (viz w)"] by simp
next
  case (OutlineAnnotation a)
  have "snd (add_annotation proj numpy_to_texture touch ann w) = snd (Outline_add_annotation numpy_to_texture touch a w)"
    using OutlineAnnotation by (simp add: wbind_def wreturn_def split: prod.splits sum.splits)
  then show ?thesis using Outline_frame [OF assms, of numpy_to_texture touch a] by simp
next
  case (LegendAnnotation a)
  have "snd (add_annotation proj numpy_to_texture touch ann w) = snd (Legend_add_annotation a w)"
    using LegendAnnotation by (simp add: wbind_def wreturn_def split: prod.splits sum.splits)
  then show ?thesis using Legend_frame [of a w "topo_mesh (viz w)"] by simp
qed

theorem render_leaves_context_witness:
  "topo_mesh (viz ex_world) < next_addr ex_world
   \<and> viz (snd (add_annotation ex_proj ex_numpy_to_texture ex_touch (OutlineAnnotation ex_outline) ex_world)) = ex_viz
   \<and> heap (snd (add_annotation ex_proj ex_numpy_to_texture ex_touch (OutlineAnnotation ex_outline) ex_world)) 0 =
       Some (MeshObj ex_mesh)"
proof -
  have lt: "topo_mesh (viz ex_world) < next_addr ex_world"
    by (simp add: ex_world_def ex_viz_def)
  have "viz ex_world = ex_viz" "topo_mesh (viz ex_world) = 0" "heap ex_world 0 = Some (MeshObj ex_mesh)"
    by (simp_all add: ex_world_def ex_viz_def ex_heap_def)
  then show ?thesis
    using lt render_leaves_context [OF lt, of ex_proj ex_numpy_to_texture ex_touch
        "OutlineAnnotation ex_outline"]
    by simp
qed

subsection \<open>What the constructors do to their arguments\<close>

lemma arrow_setdefaults:
  "dict_setdefault ''color'' v2 (dict_setdefault ''show_scalar_bar'' v1 d) =
     [''show_scalar_bar'' \<mapsto> v1, ''color'' \<mapsto> v2] ++ d"
  by (rule ext) (simp add: dict_setdefault_map_add map_add_def split: option.splits)

lemma text_setdefaults:
  "dict_setdefault ''font_size'' v3
     (dict_setdefault ''show_points'' v2 (dict_setdefault ''shape'' v1 d)) =
     [''shape'' \<mapsto> v1, ''show_points'' \<mapsto> v2, ''font_size'' \<mapsto> v3] ++ d"
  by (rule ext) (simp add: dict_setdefault_map_add map_add_def split: option.splits)

lemma ArrowAnnotation_init_given:
  assumes "heap w ka = Some (DictObj d)" and "heap w kt = Some (DictObj e)" and "ka \<noteq> kt"
  shows "ArrowAnnotation_init xp yp zp xd yd zd m txt tp (Some ka) (Some kt) w =
           (Inr \<lparr>x_position = xp, y_position = yp, z_position = zp, arrow_text = txt,
                 text_position = tp, arrow_cent = None, arrow_direction = (xd, yd, zd),
                 arrow_magnitude_relative = m, arrow_magnitude = None,
                 arrow_kwargs = ka, text_kwargs = kt\<rparr>,
            w\<lparr>heap := (heap w)(ka \<mapsto> DictObj (arrow_defaults ++ d),
                                kt \<mapsto> DictObj (text_defaults ++ e))\<rparr>)"
  using assms
  by (simp add: ArrowAnnotation_init_def wbind_def dict_or_new_def setdefault_def wreturn_def
      arrow_setdefaults text_setdefaults arrow_defaults_def text_defaults_def)

lemma normalize_labels_given:
  assumes "distinct ls"
    and "\<forall>l \<in> set ls. \<exists>xs c. heap w l = Some (ListObj xs) \<and> 2 \<le> length xs
           \<and> check_color (xs ! 1) = Inr c"
  shows "\<exists>w'. normalize_labels check_color ls w = (Inr (), w')
           \<and> viz w' = viz w \<and> next_addr w' = next_addr w \<and> calls w' = calls w
           \<and> (\<forall>l \<in> set ls. \<exists>xs c. heap w l = Some (ListObj xs) \<and> check_color (xs ! 1) = Inr c
                  \<and> heap w' l = Some (ListObj (xs[1 := VRgba c])))
           \<and> (\<forall>l. l \<notin> set ls \<longrightarrow> heap w' l = heap w l)"
  using assms
proof (induction ls arbitrary: w)
  case Nil
  then show ?case by simp
next
  case (Cons l ls)
  from Cons.prems(2) obtain xs c where
    l: "heap w l = Some (ListObj xs)" "2 \<le> length xs" "check_color (xs ! 1) = Inr c"
    by auto
  let ?w1 = "w\<lparr>heap := (heap w)(l \<mapsto> ListObj (xs[1 := VRgba c]))\<rparr>"
  have notin: "l \<notin> set ls" and dist: "distinct ls"
    using Cons.prems(1) by simp_all
  have same: "heap ?w1 k = heap w k" if "k \<in> set ls" for k
    using that notin by auto
  have "\<forall>k \<in> set ls. \<exists>ys c'. heap ?w1 k = Some (ListObj ys) \<and> 2 \<le> length ys
           \<and> check_color (ys ! 1) = Inr c'"
    using Cons.prems(2) same by simp
  from Cons.IH [OF dist this] obtain w' where
    w': "normalize_labels check_color ls ?w1 = (Inr (), w')"
      "viz w' = viz ?w1" "next_addr w' = next_addr ?w1" "calls w' = calls ?w1"
      "\<forall>k \<in> set ls. \<exists>ys c'. heap ?w1 k = Some (ListObj ys) \<and> check_color (ys ! 1) = Inr c'
          \<and> heap w' k = Some (ListObj (ys[1 := VRgba c']))"
      "\<forall>k. k \<notin> set ls \<longrightarrow> heap w' k = heap ?w1 k"
    by blast
  have step: "normalize_labels check_color (l # ls) w = (Inr (), w')"
    using l w'(1) by simp
  have hl: "heap w' l = Some (ListObj (xs[1 := VRgba c]))"
    using w'(6) notin by simp
  have rest: "\<forall>k \<in> set ls. \<exists>ys c'. heap w k = Some (ListObj ys) \<and> check_color (ys ! 1) = Inr c'
          \<and> heap w' k = Some (ListObj (ys[1 := VRgba c']))"
    using w'(5) same by simp
  have other: "\<forall>k. k \<notin> set (l # ls) \<longrightarrow> heap w' k = heap w k"
    using w'(6) by simp
  show ?case
    using step w'(2,3,4) l hl rest other by (intro exI [of _ w']) simp
qed

text \<open>
  C10. The constructors change objects of the caller. Given two distinct dictionary
  objects as \<^verbatim>\<open>arrow_kwargs\<close> and \<^verbatim>\<open>text_kwargs\<close>, \<^verbatim>\<open>ArrowAnnotation.__init__\<close>
  keeps the very references it was given, and afterwards the caller's dictionaries hold the
  defaults next to the caller's entries. Given a list of distinct entries, each a list
  object with a colour at index 1 that \<^verbatim>\<open>check_color\<close> accepts,
  and keyword options that repeat neither \<^verbatim>\<open>self\<close> nor \<^verbatim>\<open>labels\<close>,
  \<^verbatim>\<open>LegendAnnotation.__init__\<close> keeps the list, and afterwards index 1 of every entry
  object holds the normalised colour.
\<close>

theorem constructors_mutate_arguments:
  assumes "heap w ka = Some (DictObj d)" and "heap w kt = Some (DictObj e)" and "ka \<noteq> kt"
    and "distinct ls"
    and "\<forall>l \<in> set ls. \<exists>xs c. heap w l = Some (ListObj xs) \<and> 2 \<le> length xs
           \<and> check_color (xs ! 1) = Inr c"
    and "\<not> clashes [''self'', ''labels''] kw"
  shows "(\<exists>a w'. ArrowAnnotation_init xp yp zp xd yd zd m txt tp (Some ka) (Some kt) w = (Inr a, w')
            \<and> arrow_kwargs a = ka \<and> text_kwargs a = kt
            \<and> heap w' ka = Some (DictObj (arrow_defaults ++ d))
            \<and> heap w' kt = Some (DictObj (text_defaults ++ e)))
         \<and> (\<exists>a w'. LegendAnnotation_init check_color (Some ls) kw w = (Inr a, w')
            \<and> labels a = Some ls
            \<and> (\<forall>l \<in> set ls. \<exists>xs c. heap w l = Some (ListObj xs) \<and> check_color (xs ! 1) = Inr c
                  \<and> heap w' l = Some (ListObj (xs[1 := VRgba c]))))"
proof
  show "\<exists>a w'. ArrowAnnotation_init xp yp zp xd yd zd m txt tp (Some ka) (Some kt) w = (Inr a, w')
            \<and> arrow_kwargs a = ka \<and> text_kwargs a = kt
            \<and> heap w' ka = Some (DictObj (arrow_defaults ++ d))
            \<and> heap w' kt = Some (DictObj (text_defaults ++ e))"
    using assms(3) by (simp add: ArrowAnnotation_init_given [OF assms(1,2,3)])
next
  from normalize_labels_given [OF assms(4,5)] obtain w' where
    w': "normalize_labels check_color ls w = (Inr (), w')"
      "\<forall>l \<in> set ls. \<exists>xs c. heap w l = Some (ListObj xs) \<and> check_color (xs ! 1) = Inr c
          \<and> heap w' l = Some (ListObj (xs[1 := VRgba c]))"
    by blast
  have "\<exists>a. LegendAnnotation_init check_color (Some ls) kw w = (Inr a, w') \<and> labels a = Some ls"
    using assms(6) w'(1) by (simp add: LegendAnnotation_init_def wbind_def wreturn_def)
  with w'(2)
  show "\<exists>a w'. LegendAnnotation_init check_color (Some ls) kw w = (Inr a, w')
            \<and> labels a = Some ls
            \<and> (\<forall>l \<in> set ls. \<exists>xs c. heap w l = Some (ListObj xs) \<and> check_color (xs ! 1) = Inr c
                  \<and> heap w' l = Some (ListObj (xs[1 := VRgba c])))"
    by blast
qed

theorem constructors_mutate_arguments_witness:
  "heap ex_world 1 = Some (DictObj Map.empty)
   \<and> heap (snd (ArrowAnnotation_init 0.5 0.5 0.5 0 1 0 0.1 ''N'' 1.3 (Some 1) (Some 2) ex_world)) 1
       = Some (DictObj arrow_defaults)
   \<and> heap ex_world 2 = Some (DictObj [''font_size'' \<mapsto> VInt 12])
   \<and> heap (snd (ArrowAnnotation_init 0.5 0.5 0.5 0 1 0 0.1 ''N'' 1.3 (Some 1) (Some 2) ex_world)) 2
       = Some (DictObj (text_defaults ++ [''font_size'' \<mapsto> VInt 12]))
   \<and> heap ex_world 3 = Some (ListObj [VStr ''ice'', VStr ''blue''])
   \<and> heap (snd (LegendAnnotation_init ex_check_color (Some [3, 4]) Map.empty ex_world)) 3
       = Some (ListObj [VStr ''ice'', VRgba (RGBA 0 0 255 255)])
   \<and> heap (snd (LegendAnnotation_init ex_check_color (Some [3, 4]) Map.empty ex_world)) 4
       = Some (ListObj [VStr ''rock'', VRgba (RGBA 100 100 100 255)])"
proof -
  have h1: "heap ex_world 1 = Some (DictObj Map.empty)"
    and h2: "heap ex_world 2 = Some (DictObj [''font_size'' \<mapsto> VInt 12])"
    and h3: "heap ex_world 3 = Some (ListObj [VStr ''ice'', VStr ''blue''])"
    and h4: "heap ex_world 4 =
               Some (ListObj [VStr ''rock'', VList [VInt 100, VInt 100, VInt 100, VInt 255]])"
    by (simp_all add: ex_world_def ex_heap_def)
  have ne: "(1 :: nat) \<noteq> 2" and di: "distinct [3 :: nat, 4]" by simp_all
  have ok: "\<forall>l \<in> set [3, 4]. \<exists>xs c. heap ex_world l = Some (ListObj xs) \<and> 2 \<le> length xs
              \<and> ex_check_color (xs ! 1) = Inr c"
    using h3 h4 by simp
  have nc: "\<not> clashes [''self'', ''labels''] Map.empty" by (simp add: clashes_def)
  have inst: "(\<exists>a w'. ArrowAnnotation_init 0.5 0.5 0.5 0 1 0 0.1 ''N'' 1.3 (Some 1) (Some 2) ex_world
                  = (Inr a, w')
            \<and> arrow_kwargs a = 1 \<and> text_kwargs a = 2
            \<and> heap w' 1 = Some (DictObj (arrow_defaults ++ Map.empty))
            \<and> heap w' 2 = Some (DictObj (text_defaults ++ [''font_size'' \<mapsto> VInt 12])))
         \<and> (\<exists>a w'. LegendAnnotation_init ex_check_color (Some [3, 4]) Map.empty ex_world = (Inr a, w')
            \<and> labels a = Some [3, 4]
            \<and> (\<forall>l \<in> set [3, 4]. \<exists>xs c. heap ex_world l = Some (ListObj xs)
                  \<and> ex_check_color (xs ! 1) = Inr c
                  \<and> heap w' l = Some (ListObj (xs[1 := VRgba c]))))"
    by (rule constructors_mutate_arguments [OF h1 h2 ne di ok nc])
  from inst obtain a w' where
    a: "ArrowAnnotation_init 0.5 0.5 0.5 0 1 0 0.1 ''N'' 1.3 (Some 1) (Some 2) ex_world = (Inr a, w')"
      "heap w' 1 = Some (DictObj (arrow_defaults ++ Map.empty))"
      "heap w' 2 = Some (DictObj (text_defaults ++ [''font_size'' \<mapsto> VInt 12]))"
    by blast
  from inst obtain b v' where
    b: "LegendAnnotation_init ex_check_color (Some [3, 4]) Map.empty ex_world = (Inr b, v')"
      "\<forall>l \<in> set [3, 4]. \<exists>xs c. heap ex_world l = Some (ListObj xs) \<and> ex_check_color (xs ! 1) = Inr c
          \<and> heap v' l = Some (ListObj (xs[1 := VRgba c]))"
    by blast
  have "heap v' 3 = Some (ListObj [VStr ''ice'', VRgba (RGBA 0 0 255 255)])"
    "heap v' 4 = Some (ListObj [VStr ''rock'', VRgba (RGBA 100 100 100 255)])"
    using b(2) h3 h4 by auto
  then show ?thesis using a b(1) h1 h2 h3 by simp
qed

subsection \<open>The options that reach the plotting surface\<close>









end
